theory Spec2Isabelle
  imports Complex_Main "HOL-Library.Finite_Map"
begin

section \<open>Observable types and link-end roles (observableTypes.cpp)\<close>

text \<open>
  The enumerations \<open>ObservableType\<close> and \<open>LinkEndType\<close> are declared in
  observableTypes.h and linkTypeDefs.h, which are not among the sources. The model has
  the enumerators that the sources name, and one further constructor for every other
  value an enumeration variable can hold (the \<open>default\<close> branches of the sources are
  written for those).
\<close>

datatype ObservableType =
    one_way_range
  | angular_position
  | position_observable
  | one_way_doppler
  | other_observable nat

datatype LinkEndType =
    transmitter
  | receiver
  | observed_body
  | other_link_end nat

text \<open>
  Every \<open>throw std::runtime_error\<close> (and the \<open>std::out_of_range\<close> of \<open>map::at\<close>) of the
  modelled functions is one constructor; the arguments are the values that the source
  prints into the message.
\<close>

datatype error =
    ObservableTypeNotFound ObservableType
  | ObservableNameNotFound string
  | LinkEndIndexNotFound LinkEndType ObservableType
  | LinkEndTypesNotFound ObservableType
  | LinkEndNotTransmitterOrReceiver
  | VectorSizeIncompatible
  | WrongNumberOfLinkEnds ObservableType nat
  | NoReceiverFound ObservableType
  | NoTransmitterFound ObservableType
  | NoObservedBodyFound
  | FoundLightTimeCorrections
  | ReferencePointNotSupported
  | ObservableNotRecognized ObservableType nat
  | BiasSettingsInconsistent
  | BiasSizeInconsistent
  | BiasTypeNotRecognized
  | MapKeyOutOfRange
  | ExternalFailure string

text \<open>\<open>getObservableName\<close>: a \<open>switch\<close> with one case per supported type.\<close>

fun getObservableName :: "ObservableType \<Rightarrow> error + string" where
  "getObservableName one_way_range = Inr ''OneWayRange''"
| "getObservableName angular_position = Inr ''AngularPosition''"
| "getObservableName position_observable = Inr ''CartesianPosition''"
| "getObservableName one_way_doppler = Inr ''OneWayDoppler''"
| "getObservableName (other_observable n) = Inl (ObservableTypeNotFound (other_observable n))"

text \<open>\<open>getObservableType\<close>: an \<open>if\<close>/\<open>else if\<close> chain on the name.\<close>

definition getObservableType :: "string \<Rightarrow> error + ObservableType" where
  "getObservableType observableName =
     (if observableName = ''OneWayRange'' then Inr one_way_range
      else if observableName = ''AngularPosition'' then Inr angular_position
      else if observableName = ''CartesianPosition'' then Inr position_observable
      else if observableName = ''OneWayDoppler'' then Inr one_way_doppler
      else Inl (ObservableNameNotFound observableName))"

text \<open>The four observable types and the four names that the two functions know.\<close>

definition supportedObservableTypes :: "ObservableType list" where
  "supportedObservableTypes = [one_way_range, angular_position, position_observable, one_way_doppler]"

definition supportedObservableNames :: "string list" where
  "supportedObservableNames = [''OneWayRange'', ''AngularPosition'', ''CartesianPosition'', ''OneWayDoppler'']"

text \<open>
  \<open>getLinkEndIndicesForLinkEndTypeAtObservable\<close>. The cases \<open>one_way_range\<close>,
  \<open>one_way_doppler\<close> and \<open>angular_position\<close> end in \<open>break\<close>. The case
  \<open>position_observable\<close> does not: after its \<open>if\<close> statement control runs on into the
  \<open>default\<close> label. \<open>switchDefault\<close> is the body of that label; it receives the vector
  built so far and throws.
\<close>

definition switchDefault :: "ObservableType \<Rightarrow> int list \<Rightarrow> error + int list" where
  "switchDefault observableType linkEndIndices = Inl (LinkEndTypesNotFound observableType)"

definition transmitterReceiverIndices ::
  "ObservableType \<Rightarrow> LinkEndType \<Rightarrow> int list \<Rightarrow> error + int list" where
  "transmitterReceiverIndices observableType linkEndType linkEndIndices =
     (case linkEndType of
        transmitter \<Rightarrow> Inr (linkEndIndices @ [0])
      | receiver \<Rightarrow> Inr (linkEndIndices @ [1])
      | _ \<Rightarrow> Inl (LinkEndIndexNotFound linkEndType observableType))"

definition getLinkEndIndicesForLinkEndTypeAtObservable ::
  "ObservableType \<Rightarrow> LinkEndType \<Rightarrow> error + int list" where
  "getLinkEndIndicesForLinkEndTypeAtObservable observableType linkEndType =
     (case observableType of
        one_way_range \<Rightarrow> transmitterReceiverIndices observableType linkEndType []
      | one_way_doppler \<Rightarrow> transmitterReceiverIndices observableType linkEndType []
      | angular_position \<Rightarrow> transmitterReceiverIndices observableType linkEndType []
      | position_observable \<Rightarrow>
          (if linkEndType = observed_body
           then switchDefault observableType ([] @ [0])
           else Inl (LinkEndIndexNotFound linkEndType observableType))
      | other_observable n \<Rightarrow> switchDefault observableType [])"

text \<open>Sequencing of two fallible calls: the first exception ends the computation.\<close>

definition thenCall :: "error + 'a \<Rightarrow> ('a \<Rightarrow> error + 'b) \<Rightarrow> error + 'b" where
  "thenCall r f = (case r of Inl e \<Rightarrow> Inl e | Inr v \<Rightarrow> f v)"

section \<open>Angle between vectors (linearAlgebra.cpp)\<close>

text \<open>
  A \<open>double\<close> is a finite number, one of the two infinities, or not a number (NaN).
  The finite values are real numbers (the representable ones are among them), and
  positive and negative zero are not distinguished. A comparison with NaN on either
  side is false.
\<close>

datatype double = Finite real | PlusInfinity | MinusInfinity | NaN

fun dle :: "double \<Rightarrow> double \<Rightarrow> bool" where
  "dle NaN b = False"
| "dle a NaN = False"
| "dle (Finite x) (Finite y) = (x \<le> y)"
| "dle MinusInfinity b = True"
| "dle a PlusInfinity = True"
| "dle PlusInfinity b = False"
| "dle a MinusInfinity = False"

fun dlt :: "double \<Rightarrow> double \<Rightarrow> bool" where
  "dlt NaN b = False"
| "dlt a NaN = False"
| "dlt (Finite x) (Finite y) = (x < y)"
| "dlt MinusInfinity MinusInfinity = False"
| "dlt MinusInfinity b = True"
| "dlt PlusInfinity b = False"
| "dlt a PlusInfinity = True"
| "dlt a MinusInfinity = False"

definition dge :: "double \<Rightarrow> double \<Rightarrow> bool" where
  "dge a b = dle b a"

definition dgt :: "double \<Rightarrow> double \<Rightarrow> bool" where
  "dgt a b = dlt b a"

text \<open>
  Arithmetic on doubles, for the evaluation of Eigen's operations. \<open>rnd\<close> is the
  rounding of the exact result of an operation on finite numbers to a double (it may
  give an infinity on overflow); NaN propagates, and the operations on infinities and
  the division by zero follow IEEE 754.
\<close>

fun signOf :: "double \<Rightarrow> real" where
  "signOf (Finite x) = sgn x"
| "signOf PlusInfinity = 1"
| "signOf MinusInfinity = - 1"
| "signOf NaN = 0"

definition infinityOfSign :: "real \<Rightarrow> double" where
  "infinityOfSign s = (if s > 0 then PlusInfinity else if s < 0 then MinusInfinity else NaN)"

fun dmul :: "(real \<Rightarrow> double) \<Rightarrow> double \<Rightarrow> double \<Rightarrow> double" where
  "dmul rnd NaN b = NaN"
| "dmul rnd a NaN = NaN"
| "dmul rnd (Finite x) (Finite y) = rnd (x * y)"
| "dmul rnd a b = infinityOfSign (signOf a * signOf b)"

fun dadd :: "(real \<Rightarrow> double) \<Rightarrow> double \<Rightarrow> double \<Rightarrow> double" where
  "dadd rnd NaN b = NaN"
| "dadd rnd a NaN = NaN"
| "dadd rnd (Finite x) (Finite y) = rnd (x + y)"
| "dadd rnd PlusInfinity MinusInfinity = NaN"
| "dadd rnd MinusInfinity PlusInfinity = NaN"
| "dadd rnd PlusInfinity b = PlusInfinity"
| "dadd rnd a PlusInfinity = PlusInfinity"
| "dadd rnd MinusInfinity b = MinusInfinity"
| "dadd rnd a MinusInfinity = MinusInfinity"

fun ddiv :: "(real \<Rightarrow> double) \<Rightarrow> double \<Rightarrow> double \<Rightarrow> double" where
  "ddiv rnd NaN b = NaN"
| "ddiv rnd a NaN = NaN"
| "ddiv rnd (Finite x) (Finite y) = (if y = 0 then infinityOfSign (sgn x) else rnd (x / y))"
| "ddiv rnd (Finite x) b = Finite 0"
| "ddiv rnd a (Finite y) = infinityOfSign (signOf a * (if y < 0 then - 1 else 1))"
| "ddiv rnd a b = NaN"

fun dsqrt :: "(real \<Rightarrow> double) \<Rightarrow> double \<Rightarrow> double" where
  "dsqrt rnd (Finite x) = (if x < 0 then NaN else rnd (sqrt x))"
| "dsqrt rnd PlusInfinity = PlusInfinity"
| "dsqrt rnd MinusInfinity = NaN"
| "dsqrt rnd NaN = NaN"

text \<open>
  Eigen is outside the sources. \<open>Eigen::VectorXd\<close> is a list of doubles, and Eigen's
  \<open>normalized( )\<close> and \<open>dot( )\<close> are the fields of the parameter \<open>eigen\<close> of the two
  functions below: nothing is assumed about the values they compute. \<open>ieeeEigen rnd\<close>
  is the instance used for evaluation: \<open>dot\<close> is the sum of the products of the
  entries, and \<open>normalized\<close> divides every entry by the square root of the squared norm
  when the squared norm is greater than 0 and returns the vector unchanged otherwise.
  \<open>Finite\<close> as rounding is exact arithmetic; \<open>roundUpToQuarters\<close> rounds up to the next
  multiple of 1/4.
\<close>

fun dsum :: "(real \<Rightarrow> double) \<Rightarrow> double list \<Rightarrow> double" where
  "dsum rnd [] = Finite 0"
| "dsum rnd (x # xs) = foldl (dadd rnd) x xs"

definition eigenDot :: "(real \<Rightarrow> double) \<Rightarrow> double list \<Rightarrow> double list \<Rightarrow> double" where
  "eigenDot rnd u v = dsum rnd (map (\<lambda>(a, b). dmul rnd a b) (zip u v))"

definition eigenSquaredNorm :: "(real \<Rightarrow> double) \<Rightarrow> double list \<Rightarrow> double" where
  "eigenSquaredNorm rnd v = eigenDot rnd v v"

definition eigenNormalized :: "(real \<Rightarrow> double) \<Rightarrow> double list \<Rightarrow> double list" where
  "eigenNormalized rnd v =
     (let z = eigenSquaredNorm rnd v
      in if dgt z (Finite 0) then map (\<lambda>a. ddiv rnd a (dsqrt rnd z)) v else v)"

record EigenOps =
  normalizedOp :: "double list \<Rightarrow> double list"
  dotOp :: "double list \<Rightarrow> double list \<Rightarrow> double"

definition ieeeEigen :: "(real \<Rightarrow> double) \<Rightarrow> EigenOps" where
  "ieeeEigen rnd = \<lparr> normalizedOp = eigenNormalized rnd, dotOp = eigenDot rnd \<rparr>"

definition roundUpToQuarters :: "real \<Rightarrow> double" where
  "roundUpToQuarters x = Finite (of_int \<lceil>4 * x\<rceil> / 4)"

text \<open>
  \<open>computeCosineOfAngleBetweenVectors\<close>: the size check, the dot product of the
  normalized vectors, and the two comparisons with 1.0 and -1.0.
\<close>

definition computeCosineOfAngleBetweenVectors ::
  "EigenOps \<Rightarrow> double list \<Rightarrow> double list \<Rightarrow> error + double" where
  "computeCosineOfAngleBetweenVectors eigen vector0 vector1 =
     (if \<not> (length vector0 = length vector1) then Inl VectorSizeIncompatible
      else
        let dotProductOfNormalizedVectors =
              dotOp eigen (normalizedOp eigen vector0) (normalizedOp eigen vector1)
        in if dge dotProductOfNormalizedVectors (Finite 1) then Inr (Finite 1)
           else if dle dotProductOfNormalizedVectors (Finite (- 1)) then Inr (Finite (- 1))
           else Inr dotProductOfNormalizedVectors)"

text \<open>
  \<open>computeAngleBetweenVectors\<close> hands the cosine to \<open>std::acos\<close>, which is the
  parameter \<open>acos\<close>, so that a statement can speak about the argument it is called
  with.
\<close>

definition computeAngleBetweenVectors ::
  "(double \<Rightarrow> double) \<Rightarrow> EigenOps \<Rightarrow> double list \<Rightarrow> double list \<Rightarrow> error + double" where
  "computeAngleBetweenVectors acos eigen vector0 vector1 =
     thenCall (computeCosineOfAngleBetweenVectors eigen vector0 vector1)
       (\<lambda>dotProductOfNormalizedVectors. Inr (acos dotProductOfNormalizedVectors))"

text \<open>The doubles that are numbers of the interval from -1 to 1.\<close>

fun inUnitRange :: "double \<Rightarrow> bool" where
  "inUnitRange (Finite x) = (- 1 \<le> x \<and> x \<le> 1)"
| "inUnitRange PlusInfinity = False"
| "inUnitRange MinusInfinity = False"
| "inUnitRange NaN = False"

section \<open>One-way Doppler observation model (oneWayDopplerObservationModel.h)\<close>

text \<open>
  A Cartesian state \<open>Eigen::Matrix< Scalar, 6, 1 >\<close> is the pair of its two segments:
  \<open>segment( 0, 3 )\<close>, the position, and \<open>segment( 3, 3 )\<close>, the velocity. The scalar
  type is \<open>real\<close>. The speed of light (\<open>physical_constants::getSpeedOfLight\<close>, declared
  in physicalConstants.h outside the sources) is the parameter \<open>c\<close>.
\<close>

type_synonym Vector3 = "real \<times> real \<times> real"
type_synonym StateType = "Vector3 \<times> Vector3"

fun dot3 :: "Vector3 \<Rightarrow> Vector3 \<Rightarrow> real" where
  "dot3 (a0, a1, a2) (b0, b1, b2) = a0 * b0 + a1 * b1 + a2 * b2"

fun minus3 :: "Vector3 \<Rightarrow> Vector3 \<Rightarrow> Vector3" where
  "minus3 (a0, a1, a2) (b0, b1, b2) = (a0 - b0, a1 - b1, a2 - b2)"

definition norm3 :: "Vector3 \<Rightarrow> real" where
  "norm3 v = sqrt (dot3 v v)"

fun scale3 :: "Vector3 \<Rightarrow> real \<Rightarrow> Vector3" where
  "scale3 (a0, a1, a2) n = (a0 / n, a1 / n, a2 / n)"

definition normalized3 :: "Vector3 \<Rightarrow> Vector3" where
  "normalized3 v = (let z = dot3 v v in if z > 0 then scale3 v (sqrt z) else v)"

definition calculateLineOfSightVelocityAsCFraction :: "real \<Rightarrow> Vector3 \<Rightarrow> Vector3 \<Rightarrow> real" where
  "calculateLineOfSightVelocityAsCFraction c lineOfSightUnitVector velocityVector =
     dot3 lineOfSightUnitVector velocityVector / c"

text \<open>
  The loop \<open>for( int i = 0; i < taylorSeriesOrder; i++ )\<close> of the Taylor series, with
  its two running variables.
\<close>

function taylorSeriesLoop :: "real \<Rightarrow> int \<Rightarrow> int \<Rightarrow> real \<Rightarrow> real \<Rightarrow> real \<times> real" where
  "taylorSeriesLoop receiverTerm taylorSeriesOrder i currentTaylorSeriesTerm currentTaylorSeries =
     (if i < taylorSeriesOrder
      then taylorSeriesLoop receiverTerm taylorSeriesOrder (i + 1)
             (currentTaylorSeriesTerm * receiverTerm)
             (currentTaylorSeries + currentTaylorSeriesTerm * receiverTerm)
      else (currentTaylorSeriesTerm, currentTaylorSeries))"
  by pat_completeness auto
termination
  by (relation "measure (\<lambda>(r, n, i, t, s). nat (n - i))") auto

declare taylorSeriesLoop.simps [simp del]

definition computeOneWayFirstOrderDopplerTaylorSeriesExpansion ::
  "real \<Rightarrow> StateType \<Rightarrow> StateType \<Rightarrow> int \<Rightarrow> real" where
  "computeOneWayFirstOrderDopplerTaylorSeriesExpansion c transmitterState receiverState taylorSeriesOrder =
     (let relativePostion = normalized3 (minus3 (fst receiverState) (fst transmitterState));
          transmitterTerm = dot3 relativePostion (snd transmitterState) / c;
          receiverTerm = dot3 relativePostion (snd receiverState) / c;
          currentTaylorSeries = snd (taylorSeriesLoop receiverTerm taylorSeriesOrder 0 1 0)
      in - transmitterTerm + currentTaylorSeries * (1 - transmitterTerm))"

text \<open>
  The light-time calculator (lightTimeSolution.h) and the bias classes
  (observationBias.h) are outside the sources. A calculator is the function that
  \<open>calculateLightTimeWithLinkEndsStates( receiverState, transmitterState, time,
  isTimeAtReception )\<close> computes: from the four arguments (the two states are passed
  by reference) to the light time and the receiver and transmitter states that it
  leaves in its first two arguments, or a failure.
\<close>

type_synonym LightTimeCalculator =
  "StateType \<Rightarrow> StateType \<Rightarrow> real \<Rightarrow> bool \<Rightarrow> error + (real \<times> StateType \<times> StateType)"

datatype ObservationBias = ConstantObservationBias "real list"

record OneWayDopplerObservationModel =
  baseObservableType :: ObservableType
  baseObservationBias :: "ObservationBias option"
  lightTimeCalculator :: LightTimeCalculator
  one' :: real
  taylorSeriesExpansionOrder :: int
  receiverState :: StateType
  transmitterState :: StateType

text \<open>
  The constructor. Field names are the members' names without the trailing underscore
  (\<open>one'\<close> is \<open>one_\<close>); \<open>baseObservableType\<close> and \<open>baseObservationBias\<close> are the two
  arguments handed to the constructor of the base class \<open>ObservationModel\<close>. The members
  \<open>receiverState_\<close> and \<open>transmitterState_\<close> are not initialised by the constructor;
  their indeterminate contents are its last two arguments.
\<close>

definition newOneWayDopplerObservationModel ::
  "LightTimeCalculator \<Rightarrow> ObservationBias option \<Rightarrow> StateType \<Rightarrow> StateType
     \<Rightarrow> OneWayDopplerObservationModel" where
  "newOneWayDopplerObservationModel calculator bias rs ts =
     \<lparr> baseObservableType = one_way_doppler,
       baseObservationBias = bias,
       lightTimeCalculator = calculator,
       one' = 1,
       taylorSeriesExpansionOrder = 3,
       receiverState = rs,
       transmitterState = ts \<rparr>"

text \<open>
  \<open>computeIdealObservations\<close>: returns the model with its two state members
  overwritten, and the observable. The light time is always asked for with the flag
  \<open>true\<close>, as in the source.
\<close>

definition computeIdealObservations ::
  "real \<Rightarrow> OneWayDopplerObservationModel \<Rightarrow> real \<Rightarrow> LinkEndType
     \<Rightarrow> error + (OneWayDopplerObservationModel \<times> real)" where
  "computeIdealObservations c m time linkEndAssociatedWithTime =
     (if linkEndAssociatedWithTime = receiver \<or> linkEndAssociatedWithTime = transmitter
      then thenCall (lightTimeCalculator m (receiverState m) (transmitterState m) time True)
             (\<lambda>(lightTime, rs, ts).
                Inr (m\<lparr>receiverState := rs, transmitterState := ts\<rparr>,
                     computeOneWayFirstOrderDopplerTaylorSeriesExpansion c ts rs
                       (taylorSeriesExpansionOrder m)))
      else Inl LinkEndNotTransmitterOrReceiver)"

text \<open>
  \<open>computeIdealObservationsWithLinkEndData\<close>: \<open>linkEndTimes\<close> and \<open>linkEndStates\<close>
  are the caller's vectors, passed by reference; the function appends to them with
  \<open>push_back\<close>. The result is the updated model, the observable and the two vectors.
\<close>

definition saveLinkEndData ::
  "real \<Rightarrow> OneWayDopplerObservationModel \<Rightarrow> real \<Rightarrow> real \<Rightarrow> StateType \<Rightarrow> StateType
     \<Rightarrow> real list \<Rightarrow> StateType list
     \<Rightarrow> error + (OneWayDopplerObservationModel \<times> real \<times> real list \<times> StateType list)" where
  "saveLinkEndData c m transmissionTime receptionTime rs ts linkEndTimes linkEndStates =
     Inr (m\<lparr>receiverState := rs, transmitterState := ts\<rparr>,
          computeOneWayFirstOrderDopplerTaylorSeriesExpansion c ts rs (taylorSeriesExpansionOrder m),
          (linkEndTimes @ [transmissionTime]) @ [receptionTime],
          (linkEndStates @ [ts]) @ [rs])"

definition computeIdealObservationsWithLinkEndData ::
  "real \<Rightarrow> OneWayDopplerObservationModel \<Rightarrow> real \<Rightarrow> LinkEndType \<Rightarrow> real list \<Rightarrow> StateType list
     \<Rightarrow> error + (OneWayDopplerObservationModel \<times> real \<times> real list \<times> StateType list)" where
  "computeIdealObservationsWithLinkEndData c m time linkEndAssociatedWithTime linkEndTimes linkEndStates =
     (case linkEndAssociatedWithTime of
        receiver \<Rightarrow>
          thenCall (lightTimeCalculator m (receiverState m) (transmitterState m) time True)
            (\<lambda>(lightTime, rs, ts).
               saveLinkEndData c m (time - lightTime) time rs ts linkEndTimes linkEndStates)
      | transmitter \<Rightarrow>
          thenCall (lightTimeCalculator m (receiverState m) (transmitterState m) time False)
            (\<lambda>(lightTime, rs, ts).
               saveLinkEndData c m time (time + lightTime) rs ts linkEndTimes linkEndStates)
      | _ \<Rightarrow> Inl LinkEndNotTransmitterOrReceiver)"

text \<open>
  A calculator and a model for evaluation: the light time is 1, the transmitter is at
  the origin, the receiver at distance 1 on the first axis, both with velocity 1 along
  that axis.
\<close>

definition exampleCalculator :: LightTimeCalculator where
  "exampleCalculator rs ts time isTimeAtReception =
     Inr (1, ((1, 0, 0), (1, 0, 0)), ((0, 0, 0), (1, 0, 0)))"

definition exampleModel :: OneWayDopplerObservationModel where
  "exampleModel =
     newOneWayDopplerObservationModel exampleCalculator None ((0, 0, 0), (0, 0, 0)) ((0, 0, 0), (0, 0, 0))"

section \<open>Creation of observation models (createObservationModel.h)\<close>

text \<open>
  \<open>LinkEnds\<close> is a \<open>std::map\<close> from link-end role to a pair (body name, reference point
  name): a finite map. \<open>size( )\<close> is the number of keys, \<open>count( k )\<close> is 0 or 1, and
  \<open>at( k )\<close> throws \<open>std::out_of_range\<close> for a key that is absent. The body map is a
  \<open>std::map\<close> from body name to body.
\<close>

type_synonym LinkEnds = "(LinkEndType, string \<times> string) fmap"

definition mapSize :: "('k, 'v) fmap \<Rightarrow> nat" where
  "mapSize m = fcard (fmdom m)"

definition mapCount :: "('k, 'v) fmap \<Rightarrow> 'k \<Rightarrow> nat" where
  "mapCount m k = (if k |\<in>| fmdom m then 1 else 0)"

definition mapAt :: "('k, 'v) fmap \<Rightarrow> 'k \<Rightarrow> error + 'v" where
  "mapAt m k = (case fmlookup m k of None \<Rightarrow> Inl MapKeyOutOfRange | Some v \<Rightarrow> Inr v)"

text \<open>
  Bias settings. \<open>ObservationBiasTypes\<close> is declared in observationBias.h, outside
  the sources; the sources name the enumerator \<open>constant_additive_bias\<close>. A settings
  object is either of the class \<open>ConstantObservationBiasSettings\<close>, whose constructor
  sets the type to \<open>constant_additive_bias\<close>, or of the base class (or another class
  derived from it) with the type it was given.
\<close>

datatype ObservationBiasTypes = constant_additive_bias | other_bias_type nat

datatype ObservationBiasSettings =
    BaseObservationBiasSettings ObservationBiasTypes
  | ConstantObservationBiasSettings "real list"

fun observationBiasType :: "ObservationBiasSettings \<Rightarrow> ObservationBiasTypes" where
  "observationBiasType (BaseObservationBiasSettings t) = t"
| "observationBiasType (ConstantObservationBiasSettings b) = constant_additive_bias"

text \<open>
  \<open>ObservationSettings\<close>, with the members \<open>observableType_\<close>,
  \<open>lightTimeCorrectionsList_\<close> and \<open>biasSettings_\<close>; \<open>'l\<close> is the type of light-time
  correction settings. A null \<open>biasSettings_\<close> pointer is \<open>None\<close>.
\<close>

record 'l ObservationSettings =
  observableType :: ObservableType
  lightTimeCorrectionsList :: "'l list"
  biasSettings :: "ObservationBiasSettings option"

text \<open>
  \<open>createObservationBiasCalculator< ObservationSize >\<close>: the \<open>dynamic_pointer_cast\<close>
  to \<open>ConstantObservationBiasSettings\<close> yields null for an object of another class.
\<close>

definition createObservationBiasCalculator ::
  "nat \<Rightarrow> LinkEnds \<Rightarrow> ObservationBiasSettings \<Rightarrow> error + ObservationBias" where
  "createObservationBiasCalculator ObservationSize linkEnds biasSettings' =
     (case observationBiasType biasSettings' of
        constant_additive_bias \<Rightarrow>
          (case biasSettings' of
             ConstantObservationBiasSettings observationBias \<Rightarrow>
               if length observationBias \<noteq> ObservationSize then Inl BiasSizeInconsistent
               else Inr (ConstantObservationBias observationBias)
           | BaseObservationBiasSettings t \<Rightarrow> Inl BiasSettingsInconsistent)
      | other_bias_type n \<Rightarrow> Inl BiasTypeNotRecognized)"

definition createOptionalBias ::
  "nat \<Rightarrow> LinkEnds \<Rightarrow> ObservationBiasSettings option \<Rightarrow> error + ObservationBias option" where
  "createOptionalBias ObservationSize linkEnds settings =
     (case settings of
        None \<Rightarrow> Inr None
      | Some b \<Rightarrow> thenCall (createObservationBiasCalculator ObservationSize linkEnds b)
                   (\<lambda>observationBias. Inr (Some observationBias)))"

text \<open>
  The created model is the constructor call that \<open>make_shared\<close> performs, with its
  arguments (the model classes other than the Doppler model are outside the sources).
\<close>

datatype 'body ObservationModel =
    OneWayRangeModel LightTimeCalculator "ObservationBias option"
  | OneWayDopplerModel LightTimeCalculator "ObservationBias option"
  | AngularPositionModel LightTimeCalculator "ObservationBias option"
  | PositionModel 'body "ObservationBias option"

text \<open>
  \<open>createLightTimeCalculator\<close> (createLightTimeCalculator.h, outside the sources) is
  the parameter \<open>cltc\<close>: from the transmitter and receiver link ends, the body map and
  the correction settings to a calculator, or a failure.

  The consistency check of the three observables with a transmitter and a receiver,
  which the source writes out three times.
\<close>

type_synonym ('l, 'body) CreateLightTimeCalculator =
  "string \<times> string \<Rightarrow> string \<times> string \<Rightarrow> (string, 'body) fmap \<Rightarrow> 'l list
     \<Rightarrow> error + LightTimeCalculator"

definition checkTransmitterReceiverLinkEnds :: "ObservableType \<Rightarrow> LinkEnds \<Rightarrow> error + unit" where
  "checkTransmitterReceiverLinkEnds t linkEnds =
     (if mapSize linkEnds \<noteq> 2 then Inl (WrongNumberOfLinkEnds t (mapSize linkEnds))
      else if mapCount linkEnds receiver = 0 then Inl (NoReceiverFound t)
      else if mapCount linkEnds transmitter = 0 then Inl (NoTransmitterFound t)
      else Inr ())"

definition createTransmitterReceiverModel ::
  "nat \<Rightarrow> (LightTimeCalculator \<Rightarrow> ObservationBias option \<Rightarrow> 'body ObservationModel)
     \<Rightarrow> ('l, 'body) CreateLightTimeCalculator
     \<Rightarrow> LinkEnds \<Rightarrow> 'l ObservationSettings \<Rightarrow> (string, 'body) fmap
     \<Rightarrow> error + 'body ObservationModel" where
  "createTransmitterReceiverModel ObservationSize newModel cltc linkEnds observationSettings bodyMap =
     thenCall (checkTransmitterReceiverLinkEnds (observableType observationSettings) linkEnds) (\<lambda>_.
     thenCall (createOptionalBias ObservationSize linkEnds (biasSettings observationSettings)) (\<lambda>observationBias.
     thenCall (mapAt linkEnds transmitter) (\<lambda>transmittingLinkEnd.
     thenCall (mapAt linkEnds receiver) (\<lambda>receivingLinkEnd.
     thenCall (cltc transmittingLinkEnd receivingLinkEnd bodyMap
                 (lightTimeCorrectionsList observationSettings)) (\<lambda>lightTimeCalculator'.
     Inr (newModel lightTimeCalculator' observationBias))))))"

text \<open>\<open>ObservationModelCreator< 1 >::createObservationModel\<close>.\<close>

definition createObservationModel1 ::
  "('l, 'body) CreateLightTimeCalculator \<Rightarrow> LinkEnds \<Rightarrow> 'l ObservationSettings
     \<Rightarrow> (string, 'body) fmap \<Rightarrow> error + 'body ObservationModel" where
  "createObservationModel1 cltc linkEnds observationSettings bodyMap =
     (case observableType observationSettings of
        one_way_range \<Rightarrow>
          createTransmitterReceiverModel 1 OneWayRangeModel cltc linkEnds observationSettings bodyMap
      | one_way_doppler \<Rightarrow>
          createTransmitterReceiverModel 1 OneWayDopplerModel cltc linkEnds observationSettings bodyMap
      | _ \<Rightarrow> Inl (ObservableNotRecognized (observableType observationSettings) 1))"

text \<open>\<open>ObservationModelCreator< 2 >::createObservationModel\<close>.\<close>

definition createObservationModel2 ::
  "('l, 'body) CreateLightTimeCalculator \<Rightarrow> LinkEnds \<Rightarrow> 'l ObservationSettings
     \<Rightarrow> (string, 'body) fmap \<Rightarrow> error + 'body ObservationModel" where
  "createObservationModel2 cltc linkEnds observationSettings bodyMap =
     (case observableType observationSettings of
        angular_position \<Rightarrow>
          createTransmitterReceiverModel 2 AngularPositionModel cltc linkEnds observationSettings bodyMap
      | _ \<Rightarrow> Inl (ObservableNotRecognized (observableType observationSettings) 2))"

text \<open>\<open>ObservationModelCreator< 3 >::createObservationModel\<close>.\<close>

definition createPositionObservableModel ::
  "LinkEnds \<Rightarrow> 'l ObservationSettings \<Rightarrow> (string, 'body) fmap \<Rightarrow> error + 'body ObservationModel" where
  "createPositionObservableModel linkEnds observationSettings bodyMap =
     (if mapSize linkEnds \<noteq> 1
      then Inl (WrongNumberOfLinkEnds (observableType observationSettings) (mapSize linkEnds))
      else if mapCount linkEnds observed_body = 0 then Inl NoObservedBodyFound
      else if length (lightTimeCorrectionsList observationSettings) > 0 then Inl FoundLightTimeCorrections
      else
        thenCall (mapAt linkEnds observed_body) (\<lambda>observedLinkEnd.
          if snd observedLinkEnd \<noteq> [] then Inl ReferencePointNotSupported
          else
            thenCall (createOptionalBias 3 linkEnds (biasSettings observationSettings)) (\<lambda>observationBias.
            thenCall (mapAt bodyMap (fst observedLinkEnd)) (\<lambda>body.
            Inr (PositionModel body observationBias)))))"

definition createObservationModel3 ::
  "('l, 'body) CreateLightTimeCalculator \<Rightarrow> LinkEnds \<Rightarrow> 'l ObservationSettings
     \<Rightarrow> (string, 'body) fmap \<Rightarrow> error + 'body ObservationModel" where
  "createObservationModel3 cltc linkEnds observationSettings bodyMap =
     (case observableType observationSettings of
        position_observable \<Rightarrow> createPositionObservableModel linkEnds observationSettings bodyMap
      | _ \<Rightarrow> Inl (ObservableNotRecognized (observableType observationSettings) 3))"

text \<open>
  The link-end roles that the checks above require for each observable type, and the
  bias settings that \<open>createObservationBiasCalculator\<close> accepts for an observable of a
  given size.
\<close>

fun requiredLinkEndTypes :: "ObservableType \<Rightarrow> LinkEndType fset option" where
  "requiredLinkEndTypes one_way_range = Some {|transmitter, receiver|}"
| "requiredLinkEndTypes one_way_doppler = Some {|transmitter, receiver|}"
| "requiredLinkEndTypes angular_position = Some {|transmitter, receiver|}"
| "requiredLinkEndTypes position_observable = Some {|observed_body|}"
| "requiredLinkEndTypes (other_observable n) = None"

fun biasSettingsConsistent :: "nat \<Rightarrow> ObservationBiasSettings option \<Rightarrow> bool" where
  "biasSettingsConsistent n None = True"
| "biasSettingsConsistent n (Some (ConstantObservationBiasSettings b)) = (length b = n)"
| "biasSettingsConsistent n (Some (BaseObservationBiasSettings t)) = False"

text \<open>
  The bias object that \<open>createObservationBiasCalculator\<close> builds from consistent
  settings, and link ends, settings and a body map for evaluation.
  \<open>constantCreateLightTimeCalculator\<close> stands for a \<open>createLightTimeCalculator\<close> that
  succeeds.
\<close>

fun constantBiasOf :: "ObservationBiasSettings option \<Rightarrow> ObservationBias option" where
  "constantBiasOf None = None"
| "constantBiasOf (Some (ConstantObservationBiasSettings b)) = Some (ConstantObservationBias b)"
| "constantBiasOf (Some (BaseObservationBiasSettings t)) = None"

definition constantCreateLightTimeCalculator :: "('l, 'body) CreateLightTimeCalculator" where
  "constantCreateLightTimeCalculator transmittingLinkEnd receivingLinkEnd bodyMap corrections =
     Inr exampleCalculator"

definition earthBodyMap :: "(string, string) fmap" where
  "earthBodyMap = fmupd ''Earth'' ''EarthBody'' (fmupd ''Mars'' ''MarsBody'' fmempty)"

definition referencePointLinkEnds :: LinkEnds where
  "referencePointLinkEnds = fmupd observed_body (''Earth'', ''Station'') fmempty"

definition observedBodyLinkEnds :: LinkEnds where
  "observedBodyLinkEnds = fmupd observed_body (''Earth'', []) fmempty"

definition transmitterReceiverLinkEnds :: LinkEnds where
  "transmitterReceiverLinkEnds =
     fmupd transmitter (''Earth'', ''Station'') (fmupd receiver (''Mars'', []) fmempty)"

definition plainSettings :: "ObservableType \<Rightarrow> unit ObservationSettings" where
  "plainSettings t = \<lparr> observableType = t, lightTimeCorrectionsList = [], biasSettings = None \<rparr>"

definition biasedAngularPositionSettings :: "unit ObservationSettings" where
  "biasedAngularPositionSettings =
     \<lparr> observableType = angular_position, lightTimeCorrectionsList = [()],
       biasSettings = Some (ConstantObservationBiasSettings [0, 0]) \<rparr>"

section \<open>Estimation settings from JSON (orbitDetermination.h)\<close>

text \<open>
  A JSON object is a map from key to value. \<open>getValue< T >( jsonObject, key, default )\<close>
  (valueAccess.h, outside the sources) returns the value stored under the key,
  converted to \<open>T\<close>, and the default when the key is absent; the conversions of a
  JSON value to \<open>bool\<close>, \<open>int\<close> and \<open>double\<close>, which can fail, are the parameters
  \<open>toBool\<close>, \<open>toInt\<close> and \<open>toDouble\<close>. The key strings of \<open>Keys::Estimation\<close> (outside
  the sources) are the fields of the parameter \<open>K\<close>: one field for each key that
  \<open>from_json\<close> names.
\<close>

datatype json = JsonNull | JsonBool bool | JsonInt int | JsonDouble real | JsonString string

type_synonym jsonObject = "string \<rightharpoonup> json"

record JsonConversions =
  toBool :: "json \<Rightarrow> error + bool"
  toInt :: "json \<Rightarrow> error + int"
  toDouble :: "json \<Rightarrow> error + real"

record EstimationKeys =
  reintegrateEquationsOnFirstIteration :: string
  reintegrateVariationalEquations :: string
  saveInformationMatrix :: string
  printOutput :: string
  saveResidualsAndParametersFromEachIteration :: string
  saveStateHistoryForEachIteration :: string
  maximumNumberOfIterations :: string

definition getValue :: "(json \<Rightarrow> error + 'a) \<Rightarrow> jsonObject \<Rightarrow> string \<Rightarrow> 'a \<Rightarrow> error + 'a" where
  "getValue convert jsonObject' key defaultValue =
     (case jsonObject' key of None \<Rightarrow> Inr defaultValue | Some v \<Rightarrow> convert v)"

text \<open>
  The convergence checker holds the four constructor arguments; \<open>PodSettings\<close> holds
  the checker and the six flags, in the order of the constructor call.
\<close>

record EstimationConvergenceChecker =
  checkerMaximumNumberOfIterations :: int
  checkerMinimumResidualChange :: real
  checkerMinimumResidual :: real
  checkerNumberOfIterationsWithoutImprovement :: int

record PodSettings =
  convergenceChecker :: EstimationConvergenceChecker
  podReintegrateEquationsOnFirstIteration :: bool
  podReintegrateVariationalEquations :: bool
  podSaveInformationMatrix :: bool
  podPrintOutput :: bool
  podSaveResidualsAndParametersFromEachIteration :: bool
  podSaveStateHistoryForEachIteration :: bool

definition from_json :: "JsonConversions \<Rightarrow> EstimationKeys \<Rightarrow> jsonObject \<Rightarrow> error + PodSettings" where
  "from_json conv K jsonObject' =
     thenCall (getValue (toBool conv) jsonObject' (reintegrateEquationsOnFirstIteration K) True) (\<lambda>reintegrateEquationsOnFirstIteration'.
     thenCall (getValue (toBool conv) jsonObject' (reintegrateVariationalEquations K) True) (\<lambda>reintegrateVariationalEquations'.
     thenCall (getValue (toBool conv) jsonObject' (saveInformationMatrix K) True) (\<lambda>saveInformationMatrix'.
     thenCall (getValue (toBool conv) jsonObject' (printOutput K) True) (\<lambda>printOutput'.
     thenCall (getValue (toBool conv) jsonObject' (saveResidualsAndParametersFromEachIteration K) True) (\<lambda>saveResidualsAndParametersFromEachIteration'.
     thenCall (getValue (toBool conv) jsonObject' (saveStateHistoryForEachIteration K) False) (\<lambda>saveStateHistoryForEachIteration'.
     thenCall (getValue (toInt conv) jsonObject' (maximumNumberOfIterations K) 5) (\<lambda>maximumNumberOfIterations'.
     thenCall (getValue (toDouble conv) jsonObject' (reintegrateEquationsOnFirstIteration K) 0) (\<lambda>minimumResidualChange.
     thenCall (getValue (toDouble conv) jsonObject' (reintegrateEquationsOnFirstIteration K) (1 / 10 ^ 20)) (\<lambda>minimumResidual.
     thenCall (getValue (toInt conv) jsonObject' (reintegrateEquationsOnFirstIteration K) 2) (\<lambda>numberOfIterationsWithoutImprovement.
     Inr \<lparr> convergenceChecker =
             \<lparr> checkerMaximumNumberOfIterations = maximumNumberOfIterations',
               checkerMinimumResidualChange = minimumResidualChange,
               checkerMinimumResidual = minimumResidual,
               checkerNumberOfIterationsWithoutImprovement = numberOfIterationsWithoutImprovement \<rparr>,
           podReintegrateEquationsOnFirstIteration = reintegrateEquationsOnFirstIteration',
           podReintegrateVariationalEquations = reintegrateVariationalEquations',
           podSaveInformationMatrix = saveInformationMatrix',
           podPrintOutput = printOutput',
           podSaveResidualsAndParametersFromEachIteration = saveResidualsAndParametersFromEachIteration',
           podSaveStateHistoryForEachIteration = saveStateHistoryForEachIteration' \<rparr>))))))))))"

text \<open>
  Key strings for evaluation: every key is spelt as its name in \<open>Keys::Estimation\<close>.
\<close>

definition estimationKeys :: EstimationKeys where
  "estimationKeys =
     \<lparr> reintegrateEquationsOnFirstIteration = ''reintegrateEquationsOnFirstIteration'',
       reintegrateVariationalEquations = ''reintegrateVariationalEquations'',
       saveInformationMatrix = ''saveInformationMatrix'',
       printOutput = ''printOutput'',
       saveResidualsAndParametersFromEachIteration = ''saveResidualsAndParametersFromEachIteration'',
       saveStateHistoryForEachIteration = ''saveStateHistoryForEachIteration'',
       maximumNumberOfIterations = ''maximumNumberOfIterations'' \<rparr>"

text \<open>
  A JSON object that supplies the three residual criteria, each under the key of its
  own name, and nothing else.
\<close>

definition criteriaOnlyJson :: jsonObject where
  "criteriaOnlyJson =
     [''minimumResidualChange'' \<mapsto> JsonDouble (1 / 1000),
      ''minimumResidual'' \<mapsto> JsonDouble (1 / 2),
      ''numberOfIterationsWithoutImprovement'' \<mapsto> JsonInt 7]"

section \<open>Normal equations of the estimator (specification, section 4.5)\<close>

text \<open>
  The estimator core (the orbit-determination manager and its least-squares routines)
  is not among the sources; only its test unitTestEstimationInput.cpp is. The
  definitions of this section follow the specification: one observation is a triple of
  its row of the design matrix \<open>H\<close>, its residual and its weight (the diagonal entry of
  \<open>W\<close>); matrices are lists of rows.
\<close>

type_synonym Observation = "real list \<times> real \<times> real"

text \<open>
  Modelled from the spec: the information matrix of the estimator core, which is missing
  from the sources. It is initialised from the inverse a priori covariance matrix, and
  the product \<open>H\<^sup>T W H\<close> of the observations is accumulated into it; the output calls it
  the unnormalized inverse covariance matrix. \<open>n\<close> is the number of parameters.
\<close>

definition unnormalizedInverseCovariance ::
  "nat \<Rightarrow> real list list \<Rightarrow> Observation list \<Rightarrow> real list list" where
  "unnormalizedInverseCovariance n inverseAPrioriCovariance observations =
     map (\<lambda>i. map (\<lambda>j. inverseAPrioriCovariance ! i ! j
                          + (\<Sum>(h, r, w) \<leftarrow> observations. h ! i * w * h ! j)) [0..<n]) [0..<n]"

text \<open>
  Modelled from the spec: the weighted residual vector of the estimator core, which is
  missing from the sources. It is initialised from the inverse a priori covariance
  matrix and the a priori parameter deviation (their product), and \<open>H\<^sup>T W r\<close> is
  accumulated into it.
\<close>

definition weightedResidualVector ::
  "nat \<Rightarrow> real list list \<Rightarrow> real list \<Rightarrow> Observation list \<Rightarrow> real list" where
  "weightedResidualVector n inverseAPrioriCovariance aPrioriDeviation observations =
     map (\<lambda>i. (\<Sum>j \<leftarrow> [0..<n]. inverseAPrioriCovariance ! i ! j * aPrioriDeviation ! j)
               + (\<Sum>(h, r, w) \<leftarrow> observations. h ! i * w * r)) [0..<n]"

text \<open>
  Modelled from the spec: the solve step of the estimator core, which is missing from
  the sources. The parameter correction is the solution of the normal equations, the
  linear system (information matrix) * correction = weighted residual vector; for a
  non-singular system it is the only solution.
\<close>

definition matrixTimesVector :: "nat \<Rightarrow> real list list \<Rightarrow> real list \<Rightarrow> real list" where
  "matrixTimesVector n A x = map (\<lambda>i. \<Sum>j \<leftarrow> [0..<n]. A ! i ! j * x ! j) [0..<n]"

definition solvesNormalEquations :: "nat \<Rightarrow> real list list \<Rightarrow> real list \<Rightarrow> real list \<Rightarrow> bool" where
  "solvesNormalEquations n A b x = (length x = n \<and> matrixTimesVector n A x = b)"

text \<open>
  Scaling of all observation weights by a constant, the product of a constant and a
  matrix, the zero matrix (no a priori constraint), and two observation batches for
  evaluation.
\<close>

definition scaleWeights :: "real \<Rightarrow> Observation list \<Rightarrow> Observation list" where
  "scaleWeights k observations = map (\<lambda>(h, r, w). (h, r, k * w)) observations"

definition scaleMatrix :: "real \<Rightarrow> real list list \<Rightarrow> real list list" where
  "scaleMatrix k A = map (map (\<lambda>a. k * a)) A"

definition zeroMatrix :: "nat \<Rightarrow> real list list" where
  "zeroMatrix n = replicate n (replicate n 0)"

definition twoObservations :: "Observation list" where
  "twoObservations = [([1, 0], 1, 1), ([0, 1], 2, 1)]"

definition oneObservation :: "Observation list" where
  "oneObservation = [([1], 1, 1)]"

section \<open>Properties of the observable-type functions\<close>

text \<open>
  Claim C1 (the code at the input the claim is about). For the position observable and
  the role \<open>observed_body\<close> the function pushes index 0 and then, for want of a \<open>break\<close>,
  reaches the \<open>default\<close> label and throws: no call for the position observable returns.
\<close>

theorem position_observable_link_end_indices_always_throw:
  "getLinkEndIndicesForLinkEndTypeAtObservable position_observable observed_body
     = Inl (LinkEndTypesNotFound position_observable)
   \<and> (\<forall>linkEndType. \<exists>e.
        getLinkEndIndicesForLinkEndTypeAtObservable position_observable linkEndType = Inl e)"
  by (simp add: getLinkEndIndicesForLinkEndTypeAtObservable_def switchDefault_def)

text \<open>
  Claim C9. On the four supported observable types \<open>getObservableType\<close> undoes
  \<open>getObservableName\<close>, on the four names \<open>getObservableName\<close> undoes
  \<open>getObservableType\<close>, and each function throws on every other input.
\<close>

theorem observable_name_type_round_trip:
  "(t \<in> set supportedObservableTypes \<longrightarrow>
      thenCall (getObservableName t) getObservableType = Inr t)
   \<and> (s \<in> set supportedObservableNames \<longrightarrow>
      thenCall (getObservableType s) getObservableName = Inr s)
   \<and> (t \<notin> set supportedObservableTypes \<longrightarrow>
      getObservableName t = Inl (ObservableTypeNotFound t))
   \<and> (s \<notin> set supportedObservableNames \<longrightarrow>
      getObservableType s = Inl (ObservableNameNotFound s))"
proof (intro conjI impI)
  assume "t \<in> set supportedObservableTypes"
  then show "thenCall (getObservableName t) getObservableType = Inr t"
    by (auto simp: supportedObservableTypes_def thenCall_def getObservableType_def)
next
  assume "s \<in> set supportedObservableNames"
  then show "thenCall (getObservableType s) getObservableName = Inr s"
    by (auto simp: supportedObservableNames_def thenCall_def getObservableType_def)
next
  assume "t \<notin> set supportedObservableTypes"
  then show "getObservableName t = Inl (ObservableTypeNotFound t)"
    by (cases t) (simp_all add: supportedObservableTypes_def)
next
  assume "s \<notin> set supportedObservableNames"
  then show "getObservableType s = Inl (ObservableNameNotFound s)"
    by (simp add: supportedObservableNames_def getObservableType_def)
qed

theorem observable_name_type_round_trip_witness:
  "one_way_doppler \<in> set supportedObservableTypes
   \<and> thenCall (getObservableName one_way_doppler) getObservableType = Inr one_way_doppler
   \<and> ''CartesianPosition'' \<in> set supportedObservableNames
   \<and> thenCall (getObservableType ''CartesianPosition'') getObservableName = Inr ''CartesianPosition''
   \<and> other_observable 7 \<notin> set supportedObservableTypes
   \<and> getObservableName (other_observable 7) = Inl (ObservableTypeNotFound (other_observable 7))
   \<and> ''TwoWayRange'' \<notin> set supportedObservableNames
   \<and> getObservableType ''TwoWayRange'' = Inl (ObservableNameNotFound ''TwoWayRange'')"
  using observable_name_type_round_trip [of one_way_doppler "''CartesianPosition''"]
    observable_name_type_round_trip [of "other_observable 7" "''TwoWayRange''"]
  by (simp add: supportedObservableTypes_def supportedObservableNames_def)

section \<open>Properties of the angle between vectors\<close>

text \<open>The three branches of the function, by the value of the dot product.\<close>

lemma clamp_cases:
  "(if dge d (Finite 1) then Finite 1 else if dle d (Finite (- 1)) then Finite (- 1) else d) = r \<Longrightarrow>
     (d = NaN \<longrightarrow> r = NaN) \<and> (d \<noteq> NaN \<longrightarrow> inUnitRange r) \<and> (inUnitRange d \<longrightarrow> r = d)
     \<and> (dge d (Finite 1) \<longrightarrow> r = Finite 1)
     \<and> (\<not> dge d (Finite 1) \<and> dle d (Finite (- 1)) \<longrightarrow> r = Finite (- 1))
     \<and> (r = NaN \<or> inUnitRange r)"
  by (cases d) (auto simp: dge_def split: if_splits)

text \<open>Values of the evaluation instance on some vectors.\<close>

lemma sqrt25: "sqrt 25 = 5"
  using real_sqrt_abs [of 5] by simp

lemmas eigen_eval = ieeeEigen_def eigenNormalized_def eigenSquaredNorm_def eigenDot_def
  dgt_def dge_def roundUpToQuarters_def Let_def sqrt25

lemma normalized_up: "eigenNormalized roundUpToQuarters [Finite 3, Finite 4] = [Finite (3 / 4), Finite 1]"
  by (simp add: eigen_eval)

lemma normalized_up_neg:
  "eigenNormalized roundUpToQuarters [Finite (- 3), Finite (- 4)] = [Finite (- (1 / 2)), Finite (- (3 / 4))]"
  by (simp add: eigen_eval)

lemma dot_up: "eigenDot roundUpToQuarters [Finite (3 / 4), Finite 1] [Finite (3 / 4), Finite 1] = Finite (7 / 4)"
  by (simp add: eigen_eval)

lemma dot_up_neg:
  "eigenDot roundUpToQuarters [Finite (3 / 4), Finite 1] [Finite (- (1 / 2)), Finite (- (3 / 4))] = Finite (- 1)"
  by (simp add: eigen_eval)

lemma normalized_exact:
  "eigenNormalized Finite [Finite 3, Finite 4] = [Finite (3 / 5), Finite (4 / 5)]"
  "eigenNormalized Finite [Finite 4, Finite 3] = [Finite (4 / 5), Finite (3 / 5)]"
  "eigenNormalized Finite [Finite 1] = [Finite 1]"
  "eigenNormalized Finite [NaN] = [NaN]"
  by (simp_all add: eigen_eval)

lemma dot_exact:
  "eigenDot Finite [Finite (3 / 5), Finite (4 / 5)] [Finite (4 / 5), Finite (3 / 5)] = Finite (24 / 25)"
  "eigenDot Finite [NaN] [Finite 1] = NaN"
  by (simp_all add: eigen_eval)

text \<open>
  Claim C10, as the code has it. \<open>computeCosineOfAngleBetweenVectors\<close> throws exactly
  when the two vectors have different sizes. For vectors of equal size, with \<open>d\<close> the
  dot product of the normalized vectors as Eigen computes it, the result is 1 when
  \<open>d \<ge> 1\<close>, -1 when \<open>d \<le> -1\<close>, and \<open>d\<close> otherwise: a number of the interval from -1 to 1
  whenever \<open>d\<close> is not NaN, and NaN when \<open>d\<close> is NaN. So \<open>computeAngleBetweenVectors\<close>
  calls \<open>acos\<close> with a number of that interval or with NaN.
\<close>

theorem cosine_of_angle_clamped_unless_nan:
  "(length vector0 = length vector1 \<longrightarrow>
      (let d = dotOp eigen (normalizedOp eigen vector0) (normalizedOp eigen vector1)
       in \<exists>r. computeCosineOfAngleBetweenVectors eigen vector0 vector1 = Inr r
             \<and> computeAngleBetweenVectors acos eigen vector0 vector1 = Inr (acos r)
             \<and> (r = NaN \<or> inUnitRange r)
             \<and> (d = NaN \<longrightarrow> r = NaN)
             \<and> (d \<noteq> NaN \<longrightarrow> inUnitRange r)
             \<and> (inUnitRange d \<longrightarrow> r = d)
             \<and> (dge d (Finite 1) \<longrightarrow> r = Finite 1)
             \<and> (dle d (Finite (- 1)) \<longrightarrow> r = Finite (- 1))))
   \<and> ((\<exists>e. computeCosineOfAngleBetweenVectors eigen vector0 vector1 = Inl e)
        \<longleftrightarrow> length vector0 \<noteq> length vector1)
   \<and> (length vector0 \<noteq> length vector1 \<longrightarrow>
        computeCosineOfAngleBetweenVectors eigen vector0 vector1 = Inl VectorSizeIncompatible
        \<and> computeAngleBetweenVectors acos eigen vector0 vector1 = Inl VectorSizeIncompatible)"
proof (intro conjI impI)
  assume len: "length vector0 = length vector1"
  define d where "d = dotOp eigen (normalizedOp eigen vector0) (normalizedOp eigen vector1)"
  define r where "r = (if dge d (Finite 1) then Finite 1
                       else if dle d (Finite (- 1)) then Finite (- 1) else d)"
  have c: "computeCosineOfAngleBetweenVectors eigen vector0 vector1 = Inr r"
    using len by (simp add: computeCosineOfAngleBetweenVectors_def Let_def d_def r_def)
  have a: "computeAngleBetweenVectors acos eigen vector0 vector1 = Inr (acos r)"
    by (simp add: computeAngleBetweenVectors_def c thenCall_def)
  have low: "dle d (Finite (- 1)) \<Longrightarrow> \<not> dge d (Finite 1)"
    by (cases d) (simp_all add: dge_def)
  from clamp_cases [OF r_def [symmetric]] low c a
  have "\<exists>r. computeCosineOfAngleBetweenVectors eigen vector0 vector1 = Inr r
             \<and> computeAngleBetweenVectors acos eigen vector0 vector1 = Inr (acos r)
             \<and> (r = NaN \<or> inUnitRange r)
             \<and> (d = NaN \<longrightarrow> r = NaN)
             \<and> (d \<noteq> NaN \<longrightarrow> inUnitRange r)
             \<and> (inUnitRange d \<longrightarrow> r = d)
             \<and> (dge d (Finite 1) \<longrightarrow> r = Finite 1)
             \<and> (dle d (Finite (- 1)) \<longrightarrow> r = Finite (- 1))"
    by blast
  then show "let d = dotOp eigen (normalizedOp eigen vector0) (normalizedOp eigen vector1)
       in \<exists>r. computeCosineOfAngleBetweenVectors eigen vector0 vector1 = Inr r
             \<and> computeAngleBetweenVectors acos eigen vector0 vector1 = Inr (acos r)
             \<and> (r = NaN \<or> inUnitRange r)
             \<and> (d = NaN \<longrightarrow> r = NaN)
             \<and> (d \<noteq> NaN \<longrightarrow> inUnitRange r)
             \<and> (inUnitRange d \<longrightarrow> r = d)
             \<and> (dge d (Finite 1) \<longrightarrow> r = Finite 1)
             \<and> (dle d (Finite (- 1)) \<longrightarrow> r = Finite (- 1))"
    unfolding Let_def d_def .
next
  show "(\<exists>e. computeCosineOfAngleBetweenVectors eigen vector0 vector1 = Inl e)
        \<longleftrightarrow> length vector0 \<noteq> length vector1"
    by (auto simp: computeCosineOfAngleBetweenVectors_def Let_def)
next
  assume "length vector0 \<noteq> length vector1"
  then show "computeCosineOfAngleBetweenVectors eigen vector0 vector1 = Inl VectorSizeIncompatible"
    by (simp add: computeCosineOfAngleBetweenVectors_def)
next
  assume "length vector0 \<noteq> length vector1"
  then show "computeAngleBetweenVectors acos eigen vector0 vector1 = Inl VectorSizeIncompatible"
    by (simp add: computeAngleBetweenVectors_def computeCosineOfAngleBetweenVectors_def thenCall_def)
qed

theorem cosine_of_angle_clamped_unless_nan_witness:
  "length [Finite 3, Finite 4] = length [Finite 3, Finite 4]
   \<and> dotOp (ieeeEigen roundUpToQuarters)
        (normalizedOp (ieeeEigen roundUpToQuarters) [Finite 3, Finite 4])
        (normalizedOp (ieeeEigen roundUpToQuarters) [Finite 3, Finite 4]) = Finite (7 / 4)
   \<and> dge (Finite (7 / 4)) (Finite 1)
   \<and> computeCosineOfAngleBetweenVectors (ieeeEigen roundUpToQuarters)
        [Finite 3, Finite 4] [Finite 3, Finite 4] = Inr (Finite 1)
   \<and> dle (Finite (- 1)) (Finite (- 1))
   \<and> computeCosineOfAngleBetweenVectors (ieeeEigen roundUpToQuarters)
        [Finite 3, Finite 4] [Finite (- 3), Finite (- 4)] = Inr (Finite (- 1))
   \<and> inUnitRange (Finite (24 / 25))
   \<and> computeCosineOfAngleBetweenVectors (ieeeEigen Finite)
        [Finite 3, Finite 4] [Finite 4, Finite 3] = Inr (Finite (24 / 25))
   \<and> computeAngleBetweenVectors id (ieeeEigen Finite)
        [Finite 3, Finite 4] [Finite 4, Finite 3] = Inr (id (Finite (24 / 25)))
   \<and> computeCosineOfAngleBetweenVectors (ieeeEigen Finite) [Finite 1] [NaN] = Inr NaN
   \<and> length [Finite 1, Finite 0] \<noteq> length [Finite 1]
   \<and> computeCosineOfAngleBetweenVectors (ieeeEigen Finite) [Finite 1, Finite 0] [Finite 1]
        = Inl VectorSizeIncompatible"
proof -
  let ?up = "ieeeEigen roundUpToQuarters" and ?exact = "ieeeEigen Finite"
  have dUp: "dotOp ?up (normalizedOp ?up [Finite 3, Finite 4]) (normalizedOp ?up [Finite 3, Finite 4])
               = Finite (7 / 4)"
    by (simp add: ieeeEigen_def normalized_up dot_up)
  have dDown: "dotOp ?up (normalizedOp ?up [Finite 3, Finite 4])
                 (normalizedOp ?up [Finite (- 3), Finite (- 4)]) = Finite (- 1)"
    by (simp add: ieeeEigen_def normalized_up normalized_up_neg dot_up_neg)
  have dExact: "dotOp ?exact (normalizedOp ?exact [Finite 3, Finite 4])
                 (normalizedOp ?exact [Finite 4, Finite 3]) = Finite (24 / 25)"
    by (simp add: ieeeEigen_def normalized_exact dot_exact)
  have dNaN: "dotOp ?exact (normalizedOp ?exact [Finite 1]) (normalizedOp ?exact [NaN]) = NaN"
    by (simp add: ieeeEigen_def normalized_exact eigenDot_def)
  have up: "computeCosineOfAngleBetweenVectors ?up [Finite 3, Finite 4] [Finite 3, Finite 4]
              = Inr (Finite 1)"
    using cosine_of_angle_clamped_unless_nan [of "[Finite 3, Finite 4]" "[Finite 3, Finite 4]" ?up id]
    by (auto simp: Let_def dUp dge_def)
  have down: "computeCosineOfAngleBetweenVectors ?up [Finite 3, Finite 4] [Finite (- 3), Finite (- 4)]
              = Inr (Finite (- 1))"
    using cosine_of_angle_clamped_unless_nan
      [of "[Finite 3, Finite 4]" "[Finite (- 3), Finite (- 4)]" ?up id]
    by (auto simp: Let_def dDown dge_def)
  have exact: "computeCosineOfAngleBetweenVectors ?exact [Finite 3, Finite 4] [Finite 4, Finite 3]
                 = Inr (Finite (24 / 25))
               \<and> computeAngleBetweenVectors id ?exact [Finite 3, Finite 4] [Finite 4, Finite 3]
                 = Inr (id (Finite (24 / 25)))"
    using cosine_of_angle_clamped_unless_nan [of "[Finite 3, Finite 4]" "[Finite 4, Finite 3]" ?exact id]
    by (auto simp: Let_def dExact dge_def)
  have nan: "computeCosineOfAngleBetweenVectors ?exact [Finite 1] [NaN] = Inr NaN"
    using cosine_of_angle_clamped_unless_nan [of "[Finite 1]" "[NaN]" ?exact id]
    by (auto simp: Let_def dNaN)
  have differ: "computeCosineOfAngleBetweenVectors ?exact [Finite 1, Finite 0] [Finite 1]
        = Inl VectorSizeIncompatible"
    using cosine_of_angle_clamped_unless_nan [of "[Finite 1, Finite 0]" "[Finite 1]" ?exact id]
    by simp
  show ?thesis
    using dUp up down exact nan differ by (simp add: dge_def)
qed


text \<open>
  Claim C10, as stated, fails: for the two vectors of size 1 with the entries NaN and
  1 the dot product of the normalized vectors is NaN, both comparisons are false, the
  function returns NaN, which is not in the interval from -1 to 1, and \<open>acos\<close> is
  called with NaN.
\<close>

theorem cosine_of_angle_nan_input_not_in_range:
  "length [NaN] = length [Finite 1]
   \<and> computeCosineOfAngleBetweenVectors (ieeeEigen Finite) [NaN] [Finite 1] = Inr NaN
   \<and> computeAngleBetweenVectors id (ieeeEigen Finite) [NaN] [Finite 1] = Inr (id NaN)
   \<and> \<not> inUnitRange NaN"
  by (simp add: computeAngleBetweenVectors_def thenCall_def computeCosineOfAngleBetweenVectors_def
      ieeeEigen_def normalized_exact dot_exact dge_def)

section \<open>Properties of the Doppler Taylor series\<close>

text \<open>The loop computes the partial sums of the geometric series.\<close>

lemma taylorSeriesLoop_closed:
  "taylorSeriesLoop r n i t s =
     (t * r ^ nat (n - i), s + t * (\<Sum>k = 1..nat (n - i). r ^ k))"
proof (induction r n i t s rule: taylorSeriesLoop.induct)
  case (1 r n i t s)
  show ?case
  proof (cases "i < n")
    case True
    then have eq: "nat (n - i) = Suc (nat (n - (i + 1)))" by simp
    have shift: "(\<Sum>k = 1..Suc (nat (n - (i + 1))). r ^ k) = r + r * (\<Sum>k = 1..nat (n - (i + 1)). r ^ k)"
      by (simp add: sum.atLeast_Suc_atMost sum.shift_bounds_cl_Suc_ivl sum_distrib_left del: sum.cl_ivl_Suc)
    show ?thesis
      using True 1 [OF True] 
      apply (subst taylorSeriesLoop.simps)
      apply (simp only: eq shift)
      apply (simp add: algebra_simps)
      done
  next
    case False
    then show ?thesis by (subst taylorSeriesLoop.simps) simp
  qed
qed

lemma expansion_closed:
  "computeOneWayFirstOrderDopplerTaylorSeriesExpansion c ts rs N =
     (let n = normalized3 (minus3 (fst rs) (fst ts));
          a = dot3 n (snd ts) / c;
          x = dot3 n (snd rs) / c
      in - a + (\<Sum>i = 1..nat N. x ^ i) * (1 - a))"
  by (simp add: computeOneWayFirstOrderDopplerTaylorSeriesExpansion_def taylorSeriesLoop_closed Let_def)

lemma geometric_shift: "(\<Sum>i = 0..n. x ^ i) = 1 + (\<Sum>i = 1..n. (x::real) ^ i)"
  by (simp add: sum.atLeast_Suc_atMost)

lemma geometric_remainder:
  "(x::real) \<noteq> 1 \<Longrightarrow> 1 / (1 - x) - (\<Sum>i = 0..n. x ^ i) = x ^ Suc n / (1 - x)"
proof -
  assume "x \<noteq> 1"
  have "(\<Sum>i = 0..n. x ^ i) = (\<Sum>i<Suc n. x ^ i)" 
    by (simp add: atLeast0AtMost lessThan_Suc_atMost)
  also have "\<dots> = (1 - x ^ Suc n) / (1 - x)"
    using \<open>x \<noteq> 1\<close> by (metis sum_gp_strict)
  finally show ?thesis using \<open>x \<noteq> 1\<close> by (simp add: field_simps)
qed

lemma sum_squares3_pos:
  "(a, b, d) \<noteq> (0, 0, 0 :: real) \<Longrightarrow> a * a + b * b + d * d > 0"
proof -
  assume nz: "(a, b, d) \<noteq> (0, 0, 0 :: real)"
  have "a * a + b * b + d * d \<noteq> 0"
  proof
    assume z: "a * a + b * b + d * d = 0"
    have "a * a \<ge> 0" "b * b \<ge> 0" "d * d \<ge> 0" by simp_all
    with z have "a * a = 0" "b * b = 0" "d * d = 0" by linarith+
    then show False using nz by simp
  qed
  moreover have "a * a + b * b + d * d \<ge> 0" by (simp add: add_nonneg_nonneg)
  ultimately show ?thesis by linarith
qed

lemma norm3_normalized3: "v \<noteq> (0, 0, 0) \<Longrightarrow> norm3 (normalized3 v) = 1"
proof -
  obtain a b d where v: "v = (a, b, d)" by (cases v) auto
  assume "v \<noteq> (0, 0, 0)"
  then have pos: "a * a + b * b + d * d > 0" using v sum_squares3_pos by blast
  define q where "q = a * a + b * b + d * d"
  define n where "n = sqrt q"
  have nn: "n * n = q" using pos by (simp add: n_def q_def)
  have "(a / n) * (a / n) + (b / n) * (b / n) + (d / n) * (d / n) = q / (n * n)"
    by (simp add: q_def add_divide_distrib)
  also have "\<dots> = 1" using nn pos by (simp add: q_def)
  finally have "sqrt ((a / n) * (a / n) + (b / n) * (b / n) + (d / n) * (d / n)) = 1"
    by simp
  then show ?thesis
    using pos by (simp add: norm3_def normalized3_def Let_def v n_def q_def)
qed

lemma minus3_zero_iff: "minus3 p q = (0, 0, 0) \<longleftrightarrow> p = q"
  by (cases p; cases q) auto

lemma computeIdealObservations_order:
  "computeIdealObservations c m t le = Inr (m', obs) \<Longrightarrow>
     obs = computeOneWayFirstOrderDopplerTaylorSeriesExpansion c (transmitterState m') (receiverState m')
             (taylorSeriesExpansionOrder m)
     \<and> taylorSeriesExpansionOrder m' = taylorSeriesExpansionOrder m"
  by (auto simp: computeIdealObservations_def thenCall_def split: if_splits sum.splits)

lemma computeIdealObservationsWithLinkEndData_order:
  "computeIdealObservationsWithLinkEndData c m t le lts lss = Inr (m', obs, ts, ss) \<Longrightarrow>
     obs = computeOneWayFirstOrderDopplerTaylorSeriesExpansion c (transmitterState m') (receiverState m')
             (taylorSeriesExpansionOrder m)
     \<and> taylorSeriesExpansionOrder m' = taylorSeriesExpansionOrder m"
  by (auto simp: computeIdealObservationsWithLinkEndData_def saveLinkEndData_def thenCall_def
           split: LinkEndType.splits sum.splits)

text \<open>
  Claim C8. With \<open>n\<close> the normalized position difference from transmitter to receiver
  (a unit vector when the positions differ), \<open>vT = (n . v_T) / c\<close> and
  \<open>vR = (n . v_R) / c\<close>, the expansion of order \<open>N\<close> is
  \<open>- vT + (sum of vR ^ i for i from 1 to N) * (1 - vT)\<close>, which is the truncation
  \<open>(1 - vT) * (sum of vR ^ i for i from 0 to N) - 1\<close> of \<open>(1 - vT) / (1 - vR) - 1\<close>
  (the difference is the remainder of the geometric series). For order 0 the result is
  \<open>- vT\<close> whatever the receiver velocity. A model built by the constructor has order 3,
  and both observation functions evaluate the expansion with the order of the model and
  leave the order unchanged.
\<close>

theorem doppler_taylor_series_expansion:
  "(let n = normalized3 (minus3 (fst rState) (fst tState));
        vT = dot3 n (snd tState) / c;
        vR = dot3 n (snd rState) / c
    in computeOneWayFirstOrderDopplerTaylorSeriesExpansion c tState rState N
         = - vT + (\<Sum>i = 1..nat N. vR ^ i) * (1 - vT)
       \<and> computeOneWayFirstOrderDopplerTaylorSeriesExpansion c tState rState N
         = (1 - vT) * (\<Sum>i = 0..nat N. vR ^ i) - 1
       \<and> (vR \<noteq> 1 \<longrightarrow>
            ((1 - vT) / (1 - vR) - 1)
              - computeOneWayFirstOrderDopplerTaylorSeriesExpansion c tState rState N
            = (1 - vT) * (vR ^ Suc (nat N) / (1 - vR)))
       \<and> computeOneWayFirstOrderDopplerTaylorSeriesExpansion c tState (fst rState, anyVelocity) 0 = - vT
       \<and> (fst rState \<noteq> fst tState \<longrightarrow> norm3 n = 1))
   \<and> taylorSeriesExpansionOrder (newOneWayDopplerObservationModel calculator bias rs0 ts0) = 3
   \<and> (taylorSeriesExpansionOrder m = 3 \<longrightarrow>
        (\<forall>m' obs. computeIdealObservations c m t le = Inr (m', obs) \<longrightarrow>
           obs = computeOneWayFirstOrderDopplerTaylorSeriesExpansion c
                   (transmitterState m') (receiverState m') 3
           \<and> taylorSeriesExpansionOrder m' = 3)
      \<and> (\<forall>m' obs ts ss.
           computeIdealObservationsWithLinkEndData c m t le lts lss = Inr (m', obs, ts, ss) \<longrightarrow>
           obs = computeOneWayFirstOrderDopplerTaylorSeriesExpansion c
                   (transmitterState m') (receiverState m') 3
           \<and> taylorSeriesExpansionOrder m' = 3))"
proof -
  define n where "n = normalized3 (minus3 (fst rState) (fst tState))"
  define vT where "vT = dot3 n (snd tState) / c"
  define vR where "vR = dot3 n (snd rState) / c"
  define S where "S = (\<Sum>i = 1..nat N. vR ^ i)"
  have e1: "computeOneWayFirstOrderDopplerTaylorSeriesExpansion c tState rState N = - vT + S * (1 - vT)"
    by (simp add: expansion_closed Let_def n_def vT_def vR_def S_def)
  have full: "(\<Sum>i = 0..nat N. vR ^ i) = 1 + S"
    by (simp add: S_def geometric_shift)
  have e2: "computeOneWayFirstOrderDopplerTaylorSeriesExpansion c tState rState N
              = (1 - vT) * (\<Sum>i = 0..nat N. vR ^ i) - 1"
    by (simp add: e1 full algebra_simps)
  have e3: "((1 - vT) / (1 - vR) - 1)
              - computeOneWayFirstOrderDopplerTaylorSeriesExpansion c tState rState N
            = (1 - vT) * (vR ^ Suc (nat N) / (1 - vR))" if "vR \<noteq> 1"
  proof -
    have "((1 - vT) / (1 - vR) - 1) - ((1 - vT) * (\<Sum>i = 0..nat N. vR ^ i) - 1)
            = (1 - vT) * (1 / (1 - vR) - (\<Sum>i = 0..nat N. vR ^ i))"
      by (simp add: algebra_simps)
    then show ?thesis
      by (simp only: e2 geometric_remainder [OF that])
  qed
  have e4: "computeOneWayFirstOrderDopplerTaylorSeriesExpansion c tState (fst rState, anyVelocity) 0 = - vT"
    by (simp add: expansion_closed Let_def n_def vT_def)
  have e5: "norm3 n = 1" if "fst rState \<noteq> fst tState"
    using that by (simp add: n_def norm3_normalized3 minus3_zero_iff)
  have first: "(let n = normalized3 (minus3 (fst rState) (fst tState));
        vT = dot3 n (snd tState) / c;
        vR = dot3 n (snd rState) / c
    in computeOneWayFirstOrderDopplerTaylorSeriesExpansion c tState rState N
         = - vT + (\<Sum>i = 1..nat N. vR ^ i) * (1 - vT)
       \<and> computeOneWayFirstOrderDopplerTaylorSeriesExpansion c tState rState N
         = (1 - vT) * (\<Sum>i = 0..nat N. vR ^ i) - 1
       \<and> (vR \<noteq> 1 \<longrightarrow>
            ((1 - vT) / (1 - vR) - 1)
              - computeOneWayFirstOrderDopplerTaylorSeriesExpansion c tState rState N
            = (1 - vT) * (vR ^ Suc (nat N) / (1 - vR)))
       \<and> computeOneWayFirstOrderDopplerTaylorSeriesExpansion c tState (fst rState, anyVelocity) 0 = - vT
       \<and> (fst rState \<noteq> fst tState \<longrightarrow> norm3 n = 1))"
    unfolding Let_def n_def [symmetric] vT_def [symmetric] vR_def [symmetric] S_def [symmetric]
    using e1 e2 e3 e4 e5 by (simp only: S_def [symmetric]) blast
  have second: "taylorSeriesExpansionOrder (newOneWayDopplerObservationModel calculator bias rs0 ts0) = 3"
    by (simp add: newOneWayDopplerObservationModel_def)
  have third: "taylorSeriesExpansionOrder m = 3 \<longrightarrow>
        (\<forall>m' obs. computeIdealObservations c m t le = Inr (m', obs) \<longrightarrow>
           obs = computeOneWayFirstOrderDopplerTaylorSeriesExpansion c
                   (transmitterState m') (receiverState m') 3
           \<and> taylorSeriesExpansionOrder m' = 3)
      \<and> (\<forall>m' obs ts ss.
           computeIdealObservationsWithLinkEndData c m t le lts lss = Inr (m', obs, ts, ss) \<longrightarrow>
           obs = computeOneWayFirstOrderDopplerTaylorSeriesExpansion c
                   (transmitterState m') (receiverState m') 3
           \<and> taylorSeriesExpansionOrder m' = 3)"
    using computeIdealObservations_order [of c m t le]
      computeIdealObservationsWithLinkEndData_order [of c m t le lts lss]
    by metis
  from first second third show ?thesis by blast
qed


lemma example_line_of_sight: "normalized3 (1, 0, 0) = (1, 0, 0)"
  by (simp add: normalized3_def norm3_def)

theorem doppler_taylor_series_expansion_witness:
  "computeOneWayFirstOrderDopplerTaylorSeriesExpansion 2 ((0, 0, 0), (1, 0, 0)) ((1, 0, 0), (1, 0, 0)) 3
     = - (1 / 16)
   \<and> ((1 - 1 / 2) / (1 - 1 / 2) - 1) - (- (1 / 16)) = (1 - 1 / 2) * ((1 / 2) ^ 4 / (1 - 1 / (2 :: real)))
   \<and> norm3 (normalized3 (minus3 (1, 0, 0) (0, 0, 0))) = 1
   \<and> computeIdealObservations 2
        (newOneWayDopplerObservationModel exampleCalculator None ((0, 0, 0), (0, 0, 0)) ((0, 0, 0), (0, 0, 0)))
        10 receiver
      = Inr (newOneWayDopplerObservationModel exampleCalculator None
               ((1, 0, 0), (1, 0, 0)) ((0, 0, 0), (1, 0, 0)), - (1 / 16))"
proof -
  let ?m = "newOneWayDopplerObservationModel exampleCalculator None ((0, 0, 0), (0, 0, 0)) ((0, 0, 0), (0, 0, 0))"
  let ?m' = "newOneWayDopplerObservationModel exampleCalculator None ((1, 0, 0), (1, 0, 0)) ((0, 0, 0), (1, 0, 0))"
  note inst = doppler_taylor_series_expansion
      [of "((1, 0, 0), (1, 0, 0))" "((0, 0, 0), (1, 0, 0))" 2 3 "(1, 0, 0)"
          exampleCalculator None "((0, 0, 0), (0, 0, 0))" "((0, 0, 0), (0, 0, 0))" ?m 10 receiver "[]" "[]"]
  have order: "taylorSeriesExpansionOrder ?m = 3"
    by (simp add: newOneWayDopplerObservationModel_def)
  have sum3: "(\<Sum>i = Suc 0..3. (1 / 2 :: real) ^ i) = 7 / 8"
    by (simp add: eval_nat_numeral)
  have val: "computeOneWayFirstOrderDopplerTaylorSeriesExpansion 2 ((0, 0, 0), (1, 0, 0)) ((1, 0, 0), (1, 0, 0)) 3
     = - (1 / 16)"
    using inst by (simp add: Let_def example_line_of_sight sum3)
  have run: "computeIdealObservations 2 ?m 10 receiver
      = Inr (?m', computeOneWayFirstOrderDopplerTaylorSeriesExpansion 2 ((0, 0, 0), (1, 0, 0)) ((1, 0, 0), (1, 0, 0)) 3)"
    by (simp add: computeIdealObservations_def thenCall_def exampleCalculator_def
        newOneWayDopplerObservationModel_def)
  have un: "norm3 (normalized3 (minus3 (1, 0, 0) (0, 0, 0))) = 1"
    using inst by (simp add: Let_def)
  show ?thesis
    using val un run by (simp add: eval_nat_numeral)
qed

section \<open>Properties of the one-way Doppler link-end data\<close>

text \<open>
  Claim C3. For the reference link end \<open>receiver\<close> the function surfaces the times
  \<open>t - lightTime\<close>, \<open>t\<close>, for \<open>transmitter\<close> the times \<open>t\<close>, \<open>t + lightTime\<close>; in both cases
  the transmitter's time and state come first and the receiver's second, as the indices
  0 and 1 of \<open>getLinkEndIndicesForLinkEndTypeAtObservable\<close> have it, and every other
  reference link end is an error. The two entries are appended to the vectors that the
  caller passes; for the empty vectors the lists are exactly these two entries. The
  light time and the states are the ones the light-time calculator returns.
\<close>

theorem one_way_doppler_link_end_times:
  "(lightTimeCalculator m (receiverState m) (transmitterState m) t True = Inr (lightTime, rs, ts) \<longrightarrow>
      computeIdealObservationsWithLinkEndData c m t receiver linkEndTimes linkEndStates
        = Inr (m\<lparr>receiverState := rs, transmitterState := ts\<rparr>,
               computeOneWayFirstOrderDopplerTaylorSeriesExpansion c ts rs (taylorSeriesExpansionOrder m),
               linkEndTimes @ [t - lightTime, t],
               linkEndStates @ [ts, rs])
      \<and> computeIdealObservationsWithLinkEndData c m t receiver [] []
        = Inr (m\<lparr>receiverState := rs, transmitterState := ts\<rparr>,
               computeOneWayFirstOrderDopplerTaylorSeriesExpansion c ts rs (taylorSeriesExpansionOrder m),
               [t - lightTime, t],
               [ts, rs]))
   \<and> (lightTimeCalculator m (receiverState m) (transmitterState m) t False = Inr (lightTime, rs, ts) \<longrightarrow>
      computeIdealObservationsWithLinkEndData c m t transmitter linkEndTimes linkEndStates
        = Inr (m\<lparr>receiverState := rs, transmitterState := ts\<rparr>,
               computeOneWayFirstOrderDopplerTaylorSeriesExpansion c ts rs (taylorSeriesExpansionOrder m),
               linkEndTimes @ [t, t + lightTime],
               linkEndStates @ [ts, rs])
      \<and> computeIdealObservationsWithLinkEndData c m t transmitter [] []
        = Inr (m\<lparr>receiverState := rs, transmitterState := ts\<rparr>,
               computeOneWayFirstOrderDopplerTaylorSeriesExpansion c ts rs (taylorSeriesExpansionOrder m),
               [t, t + lightTime],
               [ts, rs]))
   \<and> getLinkEndIndicesForLinkEndTypeAtObservable one_way_doppler transmitter = Inr [0]
   \<and> getLinkEndIndicesForLinkEndTypeAtObservable one_way_doppler receiver = Inr [1]
   \<and> (linkEnd \<noteq> transmitter \<and> linkEnd \<noteq> receiver \<longrightarrow>
        computeIdealObservationsWithLinkEndData c m t linkEnd linkEndTimes linkEndStates
          = Inl LinkEndNotTransmitterOrReceiver)"
proof (intro conjI impI)
  show "getLinkEndIndicesForLinkEndTypeAtObservable one_way_doppler transmitter = Inr [0]"
    by (simp add: getLinkEndIndicesForLinkEndTypeAtObservable_def transmitterReceiverIndices_def)
  show "getLinkEndIndicesForLinkEndTypeAtObservable one_way_doppler receiver = Inr [1]"
    by (simp add: getLinkEndIndicesForLinkEndTypeAtObservable_def transmitterReceiverIndices_def)
next
  assume "linkEnd \<noteq> transmitter \<and> linkEnd \<noteq> receiver"
  then show "computeIdealObservationsWithLinkEndData c m t linkEnd linkEndTimes linkEndStates
          = Inl LinkEndNotTransmitterOrReceiver"
    by (cases linkEnd) (simp_all add: computeIdealObservationsWithLinkEndData_def)
qed (simp_all add: computeIdealObservationsWithLinkEndData_def saveLinkEndData_def thenCall_def)

theorem one_way_doppler_link_end_times_witness:
  "lightTimeCalculator exampleModel (receiverState exampleModel) (transmitterState exampleModel) 10 True = Inr (1, ((1, 0, 0), (1, 0, 0)), ((0, 0, 0), (1, 0, 0)))
   \<and> lightTimeCalculator exampleModel (receiverState exampleModel) (transmitterState exampleModel) 10 False = Inr (1, ((1, 0, 0), (1, 0, 0)), ((0, 0, 0), (1, 0, 0)))
   \<and> computeIdealObservationsWithLinkEndData 2 exampleModel 10 receiver [] []
        = Inr (exampleModel\<lparr>receiverState := ((1, 0, 0), (1, 0, 0)), transmitterState := ((0, 0, 0), (1, 0, 0))\<rparr>,
               computeOneWayFirstOrderDopplerTaylorSeriesExpansion 2 ((0, 0, 0), (1, 0, 0)) ((1, 0, 0), (1, 0, 0)) 3,
               [9, 10], [((0, 0, 0), (1, 0, 0)), ((1, 0, 0), (1, 0, 0))])
   \<and> computeIdealObservationsWithLinkEndData 2 exampleModel 10 transmitter [] []
        = Inr (exampleModel\<lparr>receiverState := ((1, 0, 0), (1, 0, 0)), transmitterState := ((0, 0, 0), (1, 0, 0))\<rparr>,
               computeOneWayFirstOrderDopplerTaylorSeriesExpansion 2 ((0, 0, 0), (1, 0, 0)) ((1, 0, 0), (1, 0, 0)) 3,
               [10, 11], [((0, 0, 0), (1, 0, 0)), ((1, 0, 0), (1, 0, 0))])
   \<and> observed_body \<noteq> transmitter \<and> observed_body \<noteq> receiver
   \<and> computeIdealObservationsWithLinkEndData 2 exampleModel 10 observed_body [] []
      = Inl LinkEndNotTransmitterOrReceiver"
proof -
  have cT: "lightTimeCalculator exampleModel (receiverState exampleModel) (transmitterState exampleModel) 10 True = Inr (1, ((1, 0, 0), (1, 0, 0)), ((0, 0, 0), (1, 0, 0)))"
    and cF: "lightTimeCalculator exampleModel (receiverState exampleModel) (transmitterState exampleModel) 10 False = Inr (1, ((1, 0, 0), (1, 0, 0)), ((0, 0, 0), (1, 0, 0)))"
    and order: "taylorSeriesExpansionOrder exampleModel = 3"
    by (simp_all add: exampleModel_def newOneWayDopplerObservationModel_def exampleCalculator_def)
  note a = one_way_doppler_link_end_times
      [of exampleModel 10 1 "((1, 0, 0), (1, 0, 0))" "((0, 0, 0), (1, 0, 0))" 2 "[]" "[]" observed_body]
  show ?thesis
    using a cT cF by (simp add: order)
qed

section \<open>Properties of the creation of observation models\<close>

text \<open>A finite map with two (one) keys, of which two (one) are known, has no other key.\<close>

lemma fmdom_two:
  assumes "fcard (fmdom m) = 2" "a |\<in>| fmdom m" "b |\<in>| fmdom m" "a \<noteq> b"
  shows "fmdom m = {|a, b|}"
proof (rule fcard_seteq [symmetric])
  show "{|a, b|} |\<subseteq>| fmdom m" using assms by simp
  show "fcard (fmdom m) \<le> fcard {|a, b|}" using assms by (simp add: fcard_finsert_if)
qed

lemma fmdom_one:
  assumes "fcard (fmdom m) = 1" "a |\<in>| fmdom m"
  shows "fmdom m = {|a|}"
proof (rule fcard_seteq [symmetric])
  show "{|a|} |\<subseteq>| fmdom m" using assms by simp
  show "fcard (fmdom m) \<le> fcard {|a|}" using assms by (simp add: fcard_finsert_if)
qed

lemma checkTransmitterReceiverLinkEnds_iff:
  "checkTransmitterReceiverLinkEnds t linkEnds = Inr () \<longleftrightarrow> fmdom linkEnds = {|transmitter, receiver|}"
proof
  assume "checkTransmitterReceiverLinkEnds t linkEnds = Inr ()"
  then have "fcard (fmdom linkEnds) = 2" "receiver |\<in>| fmdom linkEnds" "transmitter |\<in>| fmdom linkEnds"
    by (auto simp: checkTransmitterReceiverLinkEnds_def mapSize_def mapCount_def split: if_splits)
  then show "fmdom linkEnds = {|transmitter, receiver|}"
    using fmdom_two [of linkEnds transmitter receiver] by simp
next
  assume "fmdom linkEnds = {|transmitter, receiver|}"
  then show "checkTransmitterReceiverLinkEnds t linkEnds = Inr ()"
    by (simp add: checkTransmitterReceiverLinkEnds_def mapSize_def mapCount_def fcard_finsert_if)
qed

lemma checkTransmitterReceiverLinkEnds_cases:
  "checkTransmitterReceiverLinkEnds t linkEnds = Inr () \<or> (\<exists>e. checkTransmitterReceiverLinkEnds t linkEnds = Inl e)"
  by (simp add: checkTransmitterReceiverLinkEnds_def)

lemma createTransmitterReceiverModel_fails:
  "fmdom linkEnds \<noteq> {|transmitter, receiver|} \<Longrightarrow>
     \<exists>e. createTransmitterReceiverModel n newModel cltc linkEnds settings bodyMap = Inl e"
  using checkTransmitterReceiverLinkEnds_iff [of "observableType settings" linkEnds]
    checkTransmitterReceiverLinkEnds_cases [of "observableType settings" linkEnds]
  by (auto simp: createTransmitterReceiverModel_def thenCall_def)

lemma createOptionalBias_consistent:
  "biasSettingsConsistent n b \<Longrightarrow> createOptionalBias n linkEnds b = Inr (constantBiasOf b)"
  by (cases "(n, b)" rule: biasSettingsConsistent.cases)
     (auto simp: createOptionalBias_def createObservationBiasCalculator_def thenCall_def)

lemma createTransmitterReceiverModel_succeeds:
  assumes "fmdom linkEnds = {|transmitter, receiver|}"
    and "biasSettingsConsistent n (biasSettings settings)"
    and "fmlookup linkEnds transmitter = Some transmittingLinkEnd"
    and "fmlookup linkEnds receiver = Some receivingLinkEnd"
    and "cltc transmittingLinkEnd receivingLinkEnd bodyMap (lightTimeCorrectionsList settings) = Inr calculator"
  shows "createTransmitterReceiverModel n newModel cltc linkEnds settings bodyMap
           = Inr (newModel calculator (constantBiasOf (biasSettings settings)))"
  using assms checkTransmitterReceiverLinkEnds_iff [of "observableType settings" linkEnds]
  by (simp add: createTransmitterReceiverModel_def thenCall_def createOptionalBias_consistent mapAt_def)

lemma createPositionObservableModel_fails:
  "fmdom linkEnds \<noteq> {|observed_body|} \<Longrightarrow>
     \<exists>e. createPositionObservableModel linkEnds settings bodyMap = Inl e"
  using fmdom_one [of linkEnds observed_body]
  by (auto simp: createPositionObservableModel_def mapSize_def mapCount_def)

lemma createPositionObservableModel_succeeds:
  assumes "fmdom linkEnds = {|observed_body|}"
    and "lightTimeCorrectionsList settings = []"
    and "fmlookup linkEnds observed_body = Some (bodyName, [])"
    and "biasSettingsConsistent 3 (biasSettings settings)"
    and "fmlookup bodyMap bodyName = Some body"
  shows "createPositionObservableModel linkEnds settings bodyMap
           = Inr (PositionModel body (constantBiasOf (biasSettings settings)))"
  using assms
  by (simp add: createPositionObservableModel_def mapSize_def mapCount_def fcard_finsert_if
      thenCall_def mapAt_def createOptionalBias_consistent)


text \<open>
  Claim C2, as the code has it. Each of the three creators fails when the keys of the
  link ends are not exactly the roles that the observable type requires (transmitter and
  receiver for one-way range, one-way Doppler and angular position, the observed body
  for the position observable; no roles are accepted for any other type). With exactly
  the required roles the creator of the observable's size builds the model under the
  further conditions that the code checks: the bias settings are absent or a constant
  bias of the observable's size, the light-time calculator can be created (for the
  three observables with a light time), and, for the position observable, there are no
  light-time corrections, the observed link end has no reference point, and the body
  is in the body map.
\<close>

theorem createObservationModel_link_end_requirements:
  "(requiredLinkEndTypes (observableType settings) \<noteq> Some (fmdom linkEnds) \<longrightarrow>
      (\<exists>e. createObservationModel1 cltc linkEnds settings bodyMap = Inl e)
      \<and> (\<exists>e. createObservationModel2 cltc linkEnds settings bodyMap = Inl e)
      \<and> (\<exists>e. createObservationModel3 cltc linkEnds settings bodyMap = Inl e))
   \<and> (fmdom linkEnds = {|transmitter, receiver|}
        \<and> fmlookup linkEnds transmitter = Some transmittingLinkEnd
        \<and> fmlookup linkEnds receiver = Some receivingLinkEnd
        \<and> cltc transmittingLinkEnd receivingLinkEnd bodyMap (lightTimeCorrectionsList settings)
              = Inr calculator \<longrightarrow>
        (observableType settings = one_way_range \<and> biasSettingsConsistent 1 (biasSettings settings) \<longrightarrow>
           createObservationModel1 cltc linkEnds settings bodyMap
             = Inr (OneWayRangeModel calculator (constantBiasOf (biasSettings settings))))
        \<and> (observableType settings = one_way_doppler \<and> biasSettingsConsistent 1 (biasSettings settings) \<longrightarrow>
           createObservationModel1 cltc linkEnds settings bodyMap
             = Inr (OneWayDopplerModel calculator (constantBiasOf (biasSettings settings))))
        \<and> (observableType settings = angular_position \<and> biasSettingsConsistent 2 (biasSettings settings) \<longrightarrow>
           createObservationModel2 cltc linkEnds settings bodyMap
             = Inr (AngularPositionModel calculator (constantBiasOf (biasSettings settings)))))
   \<and> (observableType settings = position_observable
        \<and> fmdom linkEnds = {|observed_body|}
        \<and> lightTimeCorrectionsList settings = []
        \<and> fmlookup linkEnds observed_body = Some (bodyName, [])
        \<and> biasSettingsConsistent 3 (biasSettings settings)
        \<and> fmlookup bodyMap bodyName = Some body \<longrightarrow>
        createObservationModel3 cltc linkEnds settings bodyMap
          = Inr (PositionModel body (constantBiasOf (biasSettings settings))))"
proof (intro conjI impI)
  assume wrong: "requiredLinkEndTypes (observableType settings) \<noteq> Some (fmdom linkEnds)"
  show "\<exists>e. createObservationModel1 cltc linkEnds settings bodyMap = Inl e"
    using wrong createTransmitterReceiverModel_fails [of linkEnds 1 _ cltc settings bodyMap]
    by (cases "observableType settings") (auto simp: createObservationModel1_def)
  show "\<exists>e. createObservationModel2 cltc linkEnds settings bodyMap = Inl e"
    using wrong createTransmitterReceiverModel_fails [of linkEnds 2 _ cltc settings bodyMap]
    by (cases "observableType settings") (auto simp: createObservationModel2_def)
  show "\<exists>e. createObservationModel3 cltc linkEnds settings bodyMap = Inl e"
    using wrong createPositionObservableModel_fails [of linkEnds settings bodyMap]
    by (cases "observableType settings") (auto simp: createObservationModel3_def)
next
  assume "fmdom linkEnds = {|transmitter, receiver|}
        \<and> fmlookup linkEnds transmitter = Some transmittingLinkEnd
        \<and> fmlookup linkEnds receiver = Some receivingLinkEnd
        \<and> cltc transmittingLinkEnd receivingLinkEnd bodyMap (lightTimeCorrectionsList settings)
              = Inr calculator"
    and "observableType settings = one_way_range \<and> biasSettingsConsistent 1 (biasSettings settings)"
  then show "createObservationModel1 cltc linkEnds settings bodyMap
             = Inr (OneWayRangeModel calculator (constantBiasOf (biasSettings settings)))"
    by (simp add: createObservationModel1_def createTransmitterReceiverModel_succeeds)
next
  assume "fmdom linkEnds = {|transmitter, receiver|}
        \<and> fmlookup linkEnds transmitter = Some transmittingLinkEnd
        \<and> fmlookup linkEnds receiver = Some receivingLinkEnd
        \<and> cltc transmittingLinkEnd receivingLinkEnd bodyMap (lightTimeCorrectionsList settings)
              = Inr calculator"
    and "observableType settings = one_way_doppler \<and> biasSettingsConsistent 1 (biasSettings settings)"
  then show "createObservationModel1 cltc linkEnds settings bodyMap
             = Inr (OneWayDopplerModel calculator (constantBiasOf (biasSettings settings)))"
    by (simp add: createObservationModel1_def createTransmitterReceiverModel_succeeds)
next
  assume "fmdom linkEnds = {|transmitter, receiver|}
        \<and> fmlookup linkEnds transmitter = Some transmittingLinkEnd
        \<and> fmlookup linkEnds receiver = Some receivingLinkEnd
        \<and> cltc transmittingLinkEnd receivingLinkEnd bodyMap (lightTimeCorrectionsList settings)
              = Inr calculator"
    and "observableType settings = angular_position \<and> biasSettingsConsistent 2 (biasSettings settings)"
  then show "createObservationModel2 cltc linkEnds settings bodyMap
             = Inr (AngularPositionModel calculator (constantBiasOf (biasSettings settings)))"
    by (simp add: createObservationModel2_def createTransmitterReceiverModel_succeeds)
next
  assume "observableType settings = position_observable
        \<and> fmdom linkEnds = {|observed_body|}
        \<and> lightTimeCorrectionsList settings = []
        \<and> fmlookup linkEnds observed_body = Some (bodyName, [])
        \<and> biasSettingsConsistent 3 (biasSettings settings)
        \<and> fmlookup bodyMap bodyName = Some body"
  then show "createObservationModel3 cltc linkEnds settings bodyMap
          = Inr (PositionModel body (constantBiasOf (biasSettings settings)))"
    by (simp add: createObservationModel3_def createPositionObservableModel_succeeds)
qed

lemma example_link_end_domains:
  "fmdom transmitterReceiverLinkEnds = {|transmitter, receiver|}"
  "fmdom observedBodyLinkEnds = {|observed_body|}"
  "fmdom referencePointLinkEnds = {|observed_body|}"
  by (simp_all add: transmitterReceiverLinkEnds_def observedBodyLinkEnds_def referencePointLinkEnds_def)

theorem createObservationModel_link_end_requirements_witness:
  "requiredLinkEndTypes (observableType (plainSettings one_way_range)) \<noteq> Some (fmdom observedBodyLinkEnds)
   \<and> createObservationModel1 constantCreateLightTimeCalculator observedBodyLinkEnds
        (plainSettings one_way_range) earthBodyMap = Inl (WrongNumberOfLinkEnds one_way_range 1)
   \<and> fmdom transmitterReceiverLinkEnds = {|transmitter, receiver|}
   \<and> biasSettingsConsistent 1 (biasSettings (plainSettings one_way_doppler))
   \<and> createObservationModel1 constantCreateLightTimeCalculator transmitterReceiverLinkEnds
        (plainSettings one_way_range) earthBodyMap = Inr (OneWayRangeModel exampleCalculator None)
   \<and> createObservationModel1 constantCreateLightTimeCalculator transmitterReceiverLinkEnds
        (plainSettings one_way_doppler) earthBodyMap = Inr (OneWayDopplerModel exampleCalculator None)
   \<and> biasSettingsConsistent 2 (biasSettings biasedAngularPositionSettings)
   \<and> createObservationModel2 constantCreateLightTimeCalculator transmitterReceiverLinkEnds
        biasedAngularPositionSettings earthBodyMap
      = Inr (AngularPositionModel exampleCalculator (Some (ConstantObservationBias [0, 0])))
   \<and> fmdom observedBodyLinkEnds = {|observed_body|}
   \<and> createObservationModel3 constantCreateLightTimeCalculator observedBodyLinkEnds
        (plainSettings position_observable) earthBodyMap = Inr (PositionModel ''EarthBody'' None)"
proof -
  note range = createObservationModel_link_end_requirements
      [of "plainSettings one_way_range" transmitterReceiverLinkEnds constantCreateLightTimeCalculator
          earthBodyMap "(''Earth'', ''Station'')" "(''Mars'', [])" exampleCalculator
          "''Earth''" "''EarthBody''"]
  note doppler = createObservationModel_link_end_requirements
      [of "plainSettings one_way_doppler" transmitterReceiverLinkEnds constantCreateLightTimeCalculator
          earthBodyMap "(''Earth'', ''Station'')" "(''Mars'', [])" exampleCalculator
          "''Earth''" "''EarthBody''"]
  note angular = createObservationModel_link_end_requirements
      [of biasedAngularPositionSettings transmitterReceiverLinkEnds constantCreateLightTimeCalculator
          earthBodyMap "(''Earth'', ''Station'')" "(''Mars'', [])" exampleCalculator
          "''Earth''" "''EarthBody''"]
  note position = createObservationModel_link_end_requirements
      [of "plainSettings position_observable" observedBodyLinkEnds constantCreateLightTimeCalculator
          earthBodyMap "(''Earth'', ''Station'')" "(''Mars'', [])" exampleCalculator
          "''Earth''" "''EarthBody''"]
  note wrong = createObservationModel_link_end_requirements
      [of "plainSettings one_way_range" observedBodyLinkEnds constantCreateLightTimeCalculator
          earthBodyMap "(''Earth'', ''Station'')" "(''Mars'', [])" exampleCalculator
          "''Earth''" "''EarthBody''"]
  have w: "createObservationModel1 constantCreateLightTimeCalculator observedBodyLinkEnds
        (plainSettings one_way_range) earthBodyMap = Inl (WrongNumberOfLinkEnds one_way_range 1)"
    using wrong
    by (simp add: createObservationModel1_def createTransmitterReceiverModel_def
        checkTransmitterReceiverLinkEnds_def mapSize_def plainSettings_def thenCall_def
        example_link_end_domains fcard_finsert_if fcard_fempty)
  have r: "createObservationModel1 constantCreateLightTimeCalculator transmitterReceiverLinkEnds
        (plainSettings one_way_range) earthBodyMap = Inr (OneWayRangeModel exampleCalculator None)"
    using range
    by (simp add: example_link_end_domains plainSettings_def transmitterReceiverLinkEnds_def
        constantCreateLightTimeCalculator_def)
  have d: "createObservationModel1 constantCreateLightTimeCalculator transmitterReceiverLinkEnds
        (plainSettings one_way_doppler) earthBodyMap = Inr (OneWayDopplerModel exampleCalculator None)"
    using doppler
    by (simp add: example_link_end_domains plainSettings_def transmitterReceiverLinkEnds_def
        constantCreateLightTimeCalculator_def)
  have a: "createObservationModel2 constantCreateLightTimeCalculator transmitterReceiverLinkEnds
        biasedAngularPositionSettings earthBodyMap
      = Inr (AngularPositionModel exampleCalculator (Some (ConstantObservationBias [0, 0])))"
    using angular
    by (simp add: example_link_end_domains biasedAngularPositionSettings_def
        transmitterReceiverLinkEnds_def constantCreateLightTimeCalculator_def)
  have p: "createObservationModel3 constantCreateLightTimeCalculator observedBodyLinkEnds
        (plainSettings position_observable) earthBodyMap = Inr (PositionModel ''EarthBody'' None)"
    using position
    by (simp add: example_link_end_domains plainSettings_def observedBodyLinkEnds_def earthBodyMap_def)
  show ?thesis
    using w r d a p
    by (simp add: example_link_end_domains plainSettings_def biasedAngularPositionSettings_def)
qed

text \<open>
  Claim C2, as stated, fails: link ends with exactly the role \<open>observed_body\<close>, which
  name a reference point, are rejected for the position observable.
\<close>

theorem createObservationModel_exact_roles_not_sufficient:
  "requiredLinkEndTypes (observableType (plainSettings position_observable))
     = Some (fmdom referencePointLinkEnds)
   \<and> createObservationModel3 constantCreateLightTimeCalculator referencePointLinkEnds
        (plainSettings position_observable) earthBodyMap = Inl ReferencePointNotSupported"
  by (simp add: example_link_end_domains plainSettings_def createObservationModel3_def
      createPositionObservableModel_def mapSize_def mapCount_def fcard_finsert_if thenCall_def
      mapAt_def referencePointLinkEnds_def)

section \<open>Properties of the estimation settings read from JSON\<close>

lemma getValue_absent: "jsonObject' key = None \<Longrightarrow> getValue convert jsonObject' key d = Inr d"
  by (simp add: getValue_def)

text \<open>
  Claim C4 (the code at an input that supplies the criteria). \<open>from_json\<close> reads the
  residual-change threshold, the residual threshold and the number of iterations
  without improvement from the key \<open>reintegrateEquationsOnFirstIteration\<close>; the values
  that the JSON object supplies for them are not installed in the convergence checker,
  which gets the defaults 0, 1e-20 and 2.
\<close>

theorem from_json_ignores_supplied_criteria:
  "from_json conv estimationKeys criteriaOnlyJson =
     Inr \<lparr> convergenceChecker =
             \<lparr> checkerMaximumNumberOfIterations = 5,
               checkerMinimumResidualChange = 0,
               checkerMinimumResidual = 1 / 10 ^ 20,
               checkerNumberOfIterationsWithoutImprovement = 2 \<rparr>,
           podReintegrateEquationsOnFirstIteration = True,
           podReintegrateVariationalEquations = True,
           podSaveInformationMatrix = True,
           podPrintOutput = True,
           podSaveResidualsAndParametersFromEachIteration = True,
           podSaveStateHistoryForEachIteration = False \<rparr>"
proof -
  have absent: "criteriaOnlyJson (reintegrateEquationsOnFirstIteration estimationKeys) = None"
    "criteriaOnlyJson (reintegrateVariationalEquations estimationKeys) = None"
    "criteriaOnlyJson (saveInformationMatrix estimationKeys) = None"
    "criteriaOnlyJson (printOutput estimationKeys) = None"
    "criteriaOnlyJson (saveResidualsAndParametersFromEachIteration estimationKeys) = None"
    "criteriaOnlyJson (saveStateHistoryForEachIteration estimationKeys) = None"
    "criteriaOnlyJson (maximumNumberOfIterations estimationKeys) = None"
    by (simp_all add: criteriaOnlyJson_def estimationKeys_def)
  show ?thesis
    by (simp add: from_json_def getValue_absent absent thenCall_def)
qed

text \<open>
  More generally, an entry under a key other than the seven keys that \<open>from_json\<close>
  names has no effect on the settings.
\<close>

lemma getValue_other_key:
  "key \<noteq> k \<Longrightarrow> getValue convert (jsonObject'(key \<mapsto> v)) k d = getValue convert jsonObject' k d"
  by (simp add: getValue_def)

lemma from_json_unnamed_key:
  assumes "key \<notin> {reintegrateEquationsOnFirstIteration K, reintegrateVariationalEquations K,
             saveInformationMatrix K, printOutput K, saveResidualsAndParametersFromEachIteration K,
             saveStateHistoryForEachIteration K, maximumNumberOfIterations K}"
  shows "from_json conv K (jsonObject'(key \<mapsto> v)) = from_json conv K jsonObject'"
  using assms by (simp add: from_json_def getValue_other_key)

section \<open>Properties of the normal equations\<close>

text \<open>Scaling the weights scales both accumulated sums.\<close>

lemma scaled_information_sum:
  "(\<Sum>(h, r, w) \<leftarrow> scaleWeights k observations. h ! i * w * h ! j)
     = k * (\<Sum>(h, r, w) \<leftarrow> observations. h ! i * w * h ! j)"
  by (induction observations) (auto simp: scaleWeights_def algebra_simps)

lemma scaled_residual_sum:
  "(\<Sum>(h, r, w) \<leftarrow> scaleWeights k observations. h ! i * w * r)
     = k * (\<Sum>(h, r, w) \<leftarrow> observations. h ! i * w * r)"
  by (induction observations) (auto simp: scaleWeights_def algebra_simps)

lemma zero_prior_information:
  "unnormalizedInverseCovariance n (zeroMatrix n) observations
     = map (\<lambda>i. map (\<lambda>j. \<Sum>(h, r, w) \<leftarrow> observations. h ! i * w * h ! j) [0..<n]) [0..<n]"
  by (simp add: unnormalizedInverseCovariance_def zeroMatrix_def)

lemma sum_list_upt_cong:
  assumes "\<And>j. j < n \<Longrightarrow> f j = (g j :: real)"
  shows "(\<Sum>j \<leftarrow> [0..<n]. f j) = (\<Sum>j \<leftarrow> [0..<n]. g j)"
proof -
  have "map f [0..<n] = map g [0..<n]"
    by (rule map_cong) (simp_all add: assms)
  then show ?thesis by (simp only:)
qed

lemma zero_prior_residual:
  "weightedResidualVector n (zeroMatrix n) d observations
     = map (\<lambda>i. \<Sum>(h, r, w) \<leftarrow> observations. h ! i * w * r) [0..<n]"
proof -
  have "(\<Sum>j \<leftarrow> [0..<n]. zeroMatrix n ! i ! j * d ! j) = 0" if "i < n" for i
  proof -
    have "(\<Sum>j \<leftarrow> [0..<n]. zeroMatrix n ! i ! j * d ! j) = (\<Sum>j \<leftarrow> [0..<n]. 0)"
      using that by (intro sum_list_upt_cong) (simp add: zeroMatrix_def)
    then show ?thesis by simp
  qed
  then show ?thesis
    by (simp add: weightedResidualVector_def)
qed

lemma weight_scaling_information:
  "unnormalizedInverseCovariance n (zeroMatrix n) (scaleWeights k observations)
     = scaleMatrix k (unnormalizedInverseCovariance n (zeroMatrix n) observations)"
  by (simp add: zero_prior_information scaled_information_sum scaleMatrix_def comp_def)

lemma matrixTimesVector_scale:
  "matrixTimesVector n (scaleMatrix k (unnormalizedInverseCovariance n P observations)) x
     = map (\<lambda>a. k * a) (matrixTimesVector n (unnormalizedInverseCovariance n P observations) x)"
proof -
  have "(\<Sum>j \<leftarrow> [0..<n]. scaleMatrix k (unnormalizedInverseCovariance n P observations) ! i ! j * x ! j)
          = k * (\<Sum>j \<leftarrow> [0..<n]. unnormalizedInverseCovariance n P observations ! i ! j * x ! j)"
    if "i < n" for i
  proof -
    have "(\<Sum>j \<leftarrow> [0..<n]. scaleMatrix k (unnormalizedInverseCovariance n P observations) ! i ! j * x ! j)
            = (\<Sum>j \<leftarrow> [0..<n]. k * (unnormalizedInverseCovariance n P observations ! i ! j * x ! j))"
      using that
      by (intro sum_list_upt_cong) (simp add: scaleMatrix_def unnormalizedInverseCovariance_def)
    then show ?thesis by (simp only: sum_list_const_mult)
  qed
  then show ?thesis
    by (simp add: matrixTimesVector_def)
qed

lemma weight_scaling_residual:
  "weightedResidualVector n (zeroMatrix n) d (scaleWeights k observations)
     = map (\<lambda>a. k * a) (weightedResidualVector n (zeroMatrix n) d observations)"
  by (simp add: zero_prior_residual scaled_residual_sum comp_def)

lemma weight_scaling_solution:
  assumes "k \<noteq> 0"
  shows "solvesNormalEquations n
           (unnormalizedInverseCovariance n (zeroMatrix n) (scaleWeights k observations))
           (weightedResidualVector n (zeroMatrix n) d (scaleWeights k observations)) x
         \<longleftrightarrow>
         solvesNormalEquations n
           (unnormalizedInverseCovariance n (zeroMatrix n) observations)
           (weightedResidualVector n (zeroMatrix n) d observations) x"
proof -
  have inj: "map (\<lambda>a. k * a) u = map (\<lambda>a. k * a) v \<longleftrightarrow> u = v" for u v :: "real list"
    using assms by (simp add: inj_on_def inj_map_eq_map)
  show ?thesis
    by (simp only: solvesNormalEquations_def weight_scaling_information weight_scaling_residual
        matrixTimesVector_scale inj)
qed


text \<open>
  Claim C6, as the specification's normal equations have it. Without an a priori
  constraint (the inverse a priori covariance is zero), scaling all observation weights
  by \<open>k\<close> scales every entry of the unnormalized inverse covariance matrix by exactly
  \<open>k\<close>, and for \<open>k\<close> other than 0 the normal equations have the same solutions as
  before: the parameter correction is unchanged.
\<close>

theorem weight_scaling_with_zero_prior:
  "unnormalizedInverseCovariance n (zeroMatrix n) (scaleWeights k observations)
     = scaleMatrix k (unnormalizedInverseCovariance n (zeroMatrix n) observations)
   \<and> (\<forall>i < n. \<forall>j < n.
         unnormalizedInverseCovariance n (zeroMatrix n) (scaleWeights k observations) ! i ! j
           = k * unnormalizedInverseCovariance n (zeroMatrix n) observations ! i ! j)
   \<and> (k \<noteq> 0 \<longrightarrow>
        (solvesNormalEquations n
           (unnormalizedInverseCovariance n (zeroMatrix n) (scaleWeights k observations))
           (weightedResidualVector n (zeroMatrix n) d (scaleWeights k observations)) x
         \<longleftrightarrow>
         solvesNormalEquations n
           (unnormalizedInverseCovariance n (zeroMatrix n) observations)
           (weightedResidualVector n (zeroMatrix n) d observations) x))"
proof (intro conjI allI impI)
  show "unnormalizedInverseCovariance n (zeroMatrix n) (scaleWeights k observations)
     = scaleMatrix k (unnormalizedInverseCovariance n (zeroMatrix n) observations)"
    by (rule weight_scaling_information)
next
  fix i j assume "i < n" "j < n"
  then show "unnormalizedInverseCovariance n (zeroMatrix n) (scaleWeights k observations) ! i ! j
           = k * unnormalizedInverseCovariance n (zeroMatrix n) observations ! i ! j"
    by (simp add: zero_prior_information scaled_information_sum)
next
  assume "k \<noteq> 0"
  then show "solvesNormalEquations n
           (unnormalizedInverseCovariance n (zeroMatrix n) (scaleWeights k observations))
           (weightedResidualVector n (zeroMatrix n) d (scaleWeights k observations)) x
         \<longleftrightarrow>
         solvesNormalEquations n
           (unnormalizedInverseCovariance n (zeroMatrix n) observations)
           (weightedResidualVector n (zeroMatrix n) d observations) x"
    by (rule weight_scaling_solution)
qed

lemma two_observations_values:
  "unnormalizedInverseCovariance 2 (zeroMatrix 2) twoObservations = [[1, 0], [0, 1]]"
  "weightedResidualVector 2 (zeroMatrix 2) [0, 0] twoObservations = [1, 2]"
  by (simp_all add: unnormalizedInverseCovariance_def weightedResidualVector_def zeroMatrix_def
      twoObservations_def eval_nat_numeral)

theorem weight_scaling_with_zero_prior_witness:
  "(100 :: real) \<noteq> 0
   \<and> unnormalizedInverseCovariance 2 (zeroMatrix 2) (scaleWeights 100 twoObservations)
     = [[100, 0], [0, 100]]
   \<and> (0 :: nat) < 2 \<and> (1 :: nat) < 2
   \<and> unnormalizedInverseCovariance 2 (zeroMatrix 2) (scaleWeights 100 twoObservations) ! 0 ! 0
     = 100 * unnormalizedInverseCovariance 2 (zeroMatrix 2) twoObservations ! 0 ! 0
   \<and> solvesNormalEquations 2
        (unnormalizedInverseCovariance 2 (zeroMatrix 2) twoObservations)
        (weightedResidualVector 2 (zeroMatrix 2) [0, 0] twoObservations) [1, 2]
   \<and> solvesNormalEquations 2
        (unnormalizedInverseCovariance 2 (zeroMatrix 2) (scaleWeights 100 twoObservations))
        (weightedResidualVector 2 (zeroMatrix 2) [0, 0] (scaleWeights 100 twoObservations)) [1, 2]"
proof -
  note inst = weight_scaling_with_zero_prior [of 2 100 twoObservations "[0, 0]" "[1, 2]"]
  have orig: "solvesNormalEquations 2
        (unnormalizedInverseCovariance 2 (zeroMatrix 2) twoObservations)
        (weightedResidualVector 2 (zeroMatrix 2) [0, 0] twoObservations) [1, 2]"
  proof -
    have upt2: "[0..<2] = [0, Suc 0]" by (simp add: eval_nat_numeral)
    show ?thesis
      by (simp add: two_observations_values solvesNormalEquations_def matrixTimesVector_def upt2)
  qed
  have scaled: "solvesNormalEquations 2
        (unnormalizedInverseCovariance 2 (zeroMatrix 2) (scaleWeights 100 twoObservations))
        (weightedResidualVector 2 (zeroMatrix 2) [0, 0] (scaleWeights 100 twoObservations)) [1, 2]"
  proof -
    have "(100 :: real) \<noteq> 0" by simp
    with inst orig show ?thesis by blast
  qed
  have matrix: "unnormalizedInverseCovariance 2 (zeroMatrix 2) (scaleWeights 100 twoObservations)
     = [[100, 0], [0, 100]]"
    using inst by (simp add: two_observations_values scaleMatrix_def)
  have entry: "unnormalizedInverseCovariance 2 (zeroMatrix 2) (scaleWeights 100 twoObservations) ! 0 ! 0
     = 100 * unnormalizedInverseCovariance 2 (zeroMatrix 2) twoObservations ! 0 ! 0"
  proof -
    have "(0 :: nat) < 2" by simp
    with inst show ?thesis by blast
  qed
  show ?thesis
    using orig scaled matrix entry by simp
qed

text \<open>
  Claim C6, as stated, fails for a problem with an a priori constraint: with inverse a
  priori covariance 1, one observation of weight 1 and \<open>k = 2\<close> the inverse covariance
  goes from 2 to 3, not to 4, and the correction changes from 1/2 to 2/3. Both systems
  are consistent and non-singular.
\<close>

theorem weight_scaling_with_prior_not_linear:
  "unnormalizedInverseCovariance 1 [[1]] oneObservation = [[2]]
   \<and> unnormalizedInverseCovariance 1 [[1]] (scaleWeights 2 oneObservation) = [[3]]
   \<and> scaleMatrix 2 (unnormalizedInverseCovariance 1 [[1]] oneObservation) = [[4]]
   \<and> solvesNormalEquations 1
        (unnormalizedInverseCovariance 1 [[1]] oneObservation)
        (weightedResidualVector 1 [[1]] [0] oneObservation) [1 / 2]
   \<and> \<not> solvesNormalEquations 1
        (unnormalizedInverseCovariance 1 [[1]] (scaleWeights 2 oneObservation))
        (weightedResidualVector 1 [[1]] [0] (scaleWeights 2 oneObservation)) [1 / 2]
   \<and> solvesNormalEquations 1
        (unnormalizedInverseCovariance 1 [[1]] (scaleWeights 2 oneObservation))
        (weightedResidualVector 1 [[1]] [0] (scaleWeights 2 oneObservation)) [2 / 3]"
  by (simp add: unnormalizedInverseCovariance_def weightedResidualVector_def oneObservation_def
      scaleWeights_def scaleMatrix_def solvesNormalEquations_def matrixTimesVector_def)

end
